theory Spec2Isabelle
  imports Main
begin

section \<open>The relational schema\<close>

text \<open>
  The tables of \<^verbatim>\<open>drizzle/schema.d1.sql\<close>, one record per row type. Integer columns are
  \<open>int\<close>, text columns are \<open>string\<close>, a nullable column is an \<open>option\<close> (\<open>None\<close> is SQL
  NULL). A table is the list of its rows in scan (rowid) order.
\<close>

datatype role = RoleUser | RoleAdmin

record user_row =
  u_id :: int
  u_openId :: string
  u_name :: "string option"
  u_email :: "string option"
  u_avatarUrl :: "string option"
  u_loginMethod :: "string option"
  u_role :: role
  u_createdAt :: int
  u_updatedAt :: int
  u_lastSignedIn :: int

datatype category = Prompt | Automation | Tools | Business

record case_study_row =
  cs_id :: int
  cs_userId :: int
  cs_title :: string
  cs_description :: string
  cs_thumbnailUrl :: "string option"
  cs_thumbnailKey :: "string option"
  cs_category :: category
  cs_tools :: string
  cs_challenge :: string
  cs_solution :: string
  cs_steps :: string
  cs_impact :: "string option"
  cs_tags :: string
  cs_isRecommended :: int
  cs_createdAt :: int
  cs_updatedAt :: int

record favorite_row =
  f_id :: int
  f_userId :: int
  f_caseStudyId :: int
  f_createdAt :: int

record report_row =
  r_id :: int
  r_userId :: int
  r_caseStudyId :: int
  r_createdAt :: int

text \<open>
  The quest status column is plain text (\<^verbatim>\<open>status text not null default 'open'\<close>). The
  table has the columns \<^verbatim>\<open>solved_answer_id\<close> and \<^verbatim>\<open>solver_user_id\<close>
  (\<^verbatim>\<open>CREATE TABLE quests\<close>, and the \<^verbatim>\<open>ALTER TABLE\<close> statements of
  \<open>ensureQuestTables\<close>), which the table object \<^verbatim>\<open>quests\<close> of the query layer does not
  declare.
\<close>

record quest_row =
  q_id :: int
  q_userId :: int
  q_title :: string
  q_content :: string
  q_status :: string
  q_solvedAnswerId :: "int option"
  q_solverUserId :: "int option"
  q_createdAt :: int
  q_updatedAt :: int
  q_closedAt :: "int option"

record quest_answer_row =
  qa_id :: int
  qa_questId :: int
  qa_userId :: int
  qa_content :: string
  qa_createdAt :: int
  qa_updatedAt :: int

text \<open>
  The store: the six tables, the \<^verbatim>\<open>sqlite_sequence\<close> counter of each
  \<^verbatim>\<open>autoincrement\<close> key (the largest rowid the table ever held), and whether the
  engine enforces the \<^verbatim>\<open>references ... on delete cascade\<close> clauses.
\<close>

record store =
  users :: "user_row list"
  caseStudies :: "case_study_row list"
  favorites :: "favorite_row list"
  reports :: "report_row list"
  quests :: "quest_row list"
  questAnswers :: "quest_answer_row list"
  seq_users :: int
  seq_caseStudies :: int
  seq_favorites :: int
  seq_reports :: int
  seq_quests :: int
  seq_questAnswers :: int
  foreignKeys :: bool

text \<open>
  The module state of \<^verbatim>\<open>server/db.ts\<close>: \<open>c_db\<close> is \<^verbatim>\<open>_db\<close> (\<open>None\<close> until
  \<^verbatim>\<open>initDb\<close> received a binding) together with the database it gives access to, the three
  flags are \<^verbatim>\<open>_avatarColumnEnsured\<close>, \<^verbatim>\<open>_reportsTableEnsured\<close> and
  \<^verbatim>\<open>_questTablesEnsured\<close>, and \<open>bindingHasPrepare\<close> is
  \<^verbatim>\<open>typeof binding.prepare === "function"\<close>.
\<close>

record conn =
  c_db :: "store option"
  avatarColumnEnsured :: bool
  reportsTableEnsured :: bool
  questTablesEnsured :: bool
  bindingHasPrepare :: bool

datatype error =
  JsError string
  | D1ConstraintError

section \<open>Engine primitives\<close>

text \<open>
  \<^verbatim>\<open>(unixepoch() * 1000)\<close>, the column default of every timestamp: the clock in
  milliseconds, cut to whole seconds.
\<close>

definition nowMs :: "int \<Rightarrow> int" where
  "nowMs now = (now div 1000) * 1000"

text \<open>The rowid an \<^verbatim>\<open>autoincrement\<close> key gives a row inserted without an id.\<close>

definition nextRowid :: "int \<Rightarrow> int list \<Rightarrow> int" where
  "nextRowid sq ids = max sq (fold max ids 0) + 1"

text \<open>
  A table is scanned in rowid order: a new row takes its place by its rowid, which is the end
  of the table for a rowid greater than all others, as every \<^verbatim>\<open>autoincrement\<close> value is.
\<close>

definition insertByRowid :: "('a \<Rightarrow> int) \<Rightarrow> 'a \<Rightarrow> 'a list \<Rightarrow> 'a list" where
  "insertByRowid rowid row rows = insort_key rowid row rows"

text \<open>
  \<^verbatim>\<open>ORDER BY\<close> on an integer column. SQL leaves the order of rows with equal keys open;
  the model keeps them in scan order (a stable sort).
\<close>

definition orderBy :: "('a \<Rightarrow> int) \<Rightarrow> 'a list \<Rightarrow> 'a list" where
  "orderBy k rows = sort_key k rows"

definition orderByDesc :: "('a \<Rightarrow> int) \<Rightarrow> 'a list \<Rightarrow> 'a list" where
  "orderByDesc k rows = sort_key (\<lambda>r. - k r) rows"

definition leftJoin :: "'a list \<Rightarrow> 'b list \<Rightarrow> ('a \<Rightarrow> 'b \<Rightarrow> bool) \<Rightarrow> ('a \<times> 'b option) list" where
  "leftJoin xs ys on =
     concat (map (\<lambda>x. case filter (on x) ys of
                         [] \<Rightarrow> [(x, None)]
                       | m # ms \<Rightarrow> map (\<lambda>y. (x, Some y)) (m # ms)) xs)"

definition innerJoin :: "'a list \<Rightarrow> 'b list \<Rightarrow> ('a \<Rightarrow> 'b \<Rightarrow> bool) \<Rightarrow> ('a \<times> 'b) list" where
  "innerJoin xs ys on = concat (map (\<lambda>x. map (\<lambda>y. (x, y)) (filter (on x) ys)) xs)"

section \<open>Connection and lazy schema evolution\<close>

text \<open>
  The \<^verbatim>\<open>ALTER TABLE\<close>, \<^verbatim>\<open>CREATE TABLE IF NOT EXISTS\<close> and
  \<^verbatim>\<open>CREATE INDEX IF NOT EXISTS\<close> statements change no row of the schema above (an
  "already exists" answer is swallowed by the source), so \<open>ensureAvatarColumn\<close> and
  \<open>ensureReportsTable\<close> only set their flag. \<open>ensureQuestTables\<close> also runs
  \<^verbatim>\<open>UPDATE quests SET status = 'unsolved' WHERE status = 'closed'\<close>.
\<close>

definition ensureAvatarColumn :: "conn \<Rightarrow> conn" where
  "ensureAvatarColumn c =
     (if avatarColumnEnsured c \<or> c_db c = None then c
      else c\<lparr>avatarColumnEnsured := True\<rparr>)"

definition ensureReportsTable :: "conn \<Rightarrow> conn" where
  "ensureReportsTable c =
     (if reportsTableEnsured c \<or> c_db c = None then c
      else c\<lparr>reportsTableEnsured := True\<rparr>)"

definition legacyStatusUpdate :: "quest_row list \<Rightarrow> quest_row list" where
  "legacyStatusUpdate qs =
     map (\<lambda>q. if q_status q = ''closed'' then q\<lparr>q_status := ''unsolved''\<rparr> else q) qs"

definition ensureQuestTables :: "conn \<Rightarrow> conn" where
  "ensureQuestTables c =
     (if questTablesEnsured c then c
      else case c_db c of
        None \<Rightarrow> c
      | Some db \<Rightarrow>
          (if \<not> bindingHasPrepare c then c\<lparr>questTablesEnsured := True\<rparr>
           else c\<lparr>questTablesEnsured := True,
                   c_db := Some (db\<lparr>quests := legacyStatusUpdate (quests db)\<rparr>)\<rparr>))"

definition getDb :: "conn \<Rightarrow> conn \<times> store option" where
  "getDb c =
     (case c_db c of
        None \<Rightarrow> (c, None)
      | Some _ \<Rightarrow>
          (let c' = ensureQuestTables (ensureReportsTable (ensureAvatarColumn c))
           in (c', c_db c')))"

section \<open>Users\<close>

text \<open>
  \<^verbatim>\<open>InsertUser\<close>. A key that may be absent is an \<open>option\<close> (\<open>None\<close> is
  \<^verbatim>\<open>undefined\<close>); the nullable text fields may also be given as \<^verbatim>\<open>null\<close>, which is
  \<open>Some None\<close>.
\<close>

record insertUser =
  iu_id :: "int option"
  iu_openId :: string
  iu_name :: "string option option"
  iu_email :: "string option option"
  iu_avatarUrl :: "string option option"
  iu_loginMethod :: "string option option"
  iu_role :: "role option"
  iu_createdAt :: "int option"
  iu_updatedAt :: "int option"
  iu_lastSignedIn :: "int option"

text \<open>
  The object \<^verbatim>\<open>values\<close> that \<open>upsertUser\<close> builds (it never sets \<^verbatim>\<open>id\<close>,
  \<^verbatim>\<open>createdAt\<close> or \<^verbatim>\<open>updatedAt\<close>) and the object \<^verbatim>\<open>updateSet\<close>, in which
  \<open>None\<close> means that the key is absent.
\<close>

record userValues =
  uv_openId :: string
  uv_name :: "string option option"
  uv_email :: "string option option"
  uv_avatarUrl :: "string option option"
  uv_loginMethod :: "string option option"
  uv_lastSignedIn :: "int option"
  uv_role :: "role option"

record userUpdateSet =
  us_name :: "string option option"
  us_email :: "string option option"
  us_avatarUrl :: "string option option"
  us_loginMethod :: "string option option"
  us_lastSignedIn :: "int option"
  us_role :: "role option"

definition applyUserUpdate :: "userUpdateSet \<Rightarrow> user_row \<Rightarrow> user_row" where
  "applyUserUpdate s u =
     u\<lparr>u_name := (case us_name s of None \<Rightarrow> u_name u | Some v \<Rightarrow> v),
       u_email := (case us_email s of None \<Rightarrow> u_email u | Some v \<Rightarrow> v),
       u_avatarUrl := (case us_avatarUrl s of None \<Rightarrow> u_avatarUrl u | Some v \<Rightarrow> v),
       u_loginMethod := (case us_loginMethod s of None \<Rightarrow> u_loginMethod u | Some v \<Rightarrow> v),
       u_lastSignedIn := (case us_lastSignedIn s of None \<Rightarrow> u_lastSignedIn u | Some t \<Rightarrow> t),
       u_role := (case us_role s of None \<Rightarrow> u_role u | Some r \<Rightarrow> r)\<rparr>"

definition newUserRow :: "int \<Rightarrow> userValues \<Rightarrow> int \<Rightarrow> user_row" where
  "newUserRow i v now =
     \<lparr>u_id = i,
      u_openId = uv_openId v,
      u_name = (case uv_name v of None \<Rightarrow> None | Some x \<Rightarrow> x),
      u_email = (case uv_email v of None \<Rightarrow> None | Some x \<Rightarrow> x),
      u_avatarUrl = (case uv_avatarUrl v of None \<Rightarrow> None | Some x \<Rightarrow> x),
      u_loginMethod = (case uv_loginMethod v of None \<Rightarrow> None | Some x \<Rightarrow> x),
      u_role = (case uv_role v of None \<Rightarrow> RoleUser | Some r \<Rightarrow> r),
      u_createdAt = nowMs now,
      u_updatedAt = nowMs now,
      u_lastSignedIn = (case uv_lastSignedIn v of None \<Rightarrow> nowMs now | Some t \<Rightarrow> t)\<rparr>"

text \<open>
  \<^verbatim>\<open>INSERT INTO users ... ON CONFLICT (openId) DO UPDATE SET ...\<close>: a row with the same
  \<^verbatim>\<open>openId\<close> is updated in place, otherwise a row is inserted with the column defaults
  (\<^verbatim>\<open>role text not null default 'user'\<close>).
\<close>

definition insertOnConflictDoUpdate :: "store \<Rightarrow> userValues \<Rightarrow> userUpdateSet \<Rightarrow> int \<Rightarrow> store" where
  "insertOnConflictDoUpdate db v s now =
     (if \<exists>u \<in> set (users db). u_openId u = uv_openId v
      then db\<lparr>users := map (\<lambda>u. if u_openId u = uv_openId v then applyUserUpdate s u else u)
                            (users db)\<rparr>
      else (let i = nextRowid (seq_users db) (map u_id (users db))
            in db\<lparr>users := users db @ [newUserRow i v now], seq_users := i\<rparr>))"

text \<open>
  \<open>upsertUser\<close>. \<open>ownerOpenIds\<close> is the list \<^verbatim>\<open>ENV.ownerOpenIds\<close> evaluates to and
  \<open>now\<close> is \<^verbatim>\<open>Date.now()\<close>. The \<^verbatim>\<open>catch\<close> of the source logs and rethrows; the
  statement itself has no failing case in this schema.
\<close>

definition upsertValues :: "string list \<Rightarrow> insertUser \<Rightarrow> int \<Rightarrow> userValues" where
  "upsertValues ownerOpenIds user now =
     \<lparr>uv_openId = iu_openId user,
      uv_name = iu_name user,
      uv_email = iu_email user,
      uv_avatarUrl = iu_avatarUrl user,
      uv_loginMethod = iu_loginMethod user,
      uv_lastSignedIn =
        (case iu_lastSignedIn user of
           None \<Rightarrow> Some now
         | Some t \<Rightarrow> if t = 0 then Some now else Some t),
      uv_role =
        (case iu_role user of
           Some r \<Rightarrow> Some r
         | None \<Rightarrow> if iu_openId user \<in> set ownerOpenIds then Some RoleAdmin else None)\<rparr>"

definition upsertUpdateSet :: "string list \<Rightarrow> insertUser \<Rightarrow> int \<Rightarrow> userUpdateSet" where
  "upsertUpdateSet ownerOpenIds user now =
     (let s = \<lparr>us_name = iu_name user,
               us_email = iu_email user,
               us_avatarUrl = iu_avatarUrl user,
               us_loginMethod = iu_loginMethod user,
               us_lastSignedIn = iu_lastSignedIn user,
               us_role =
                 (case iu_role user of
                    Some r \<Rightarrow> Some r
                  | None \<Rightarrow> if iu_openId user \<in> set ownerOpenIds then Some RoleAdmin else None)\<rparr>
      in if us_name s = None \<and> us_email s = None \<and> us_avatarUrl s = None
            \<and> us_loginMethod s = None \<and> us_lastSignedIn s = None \<and> us_role s = None
         then s\<lparr>us_lastSignedIn := Some now\<rparr>
         else s)"

definition upsertUser :: "string list \<Rightarrow> conn \<Rightarrow> insertUser \<Rightarrow> int \<Rightarrow> conn \<times> (error + unit)" where
  "upsertUser ownerOpenIds c user now =
     (if iu_openId user = [] then (c, Inl (JsError ''User openId is required for upsert''))
      else case getDb c of
        (c1, None) \<Rightarrow> (c1, Inr ())
      | (c1, Some db) \<Rightarrow>
          (c1\<lparr>c_db := Some (insertOnConflictDoUpdate db
                               (upsertValues ownerOpenIds user now)
                               (upsertUpdateSet ownerOpenIds user now) now)\<rparr>,
           Inr ()))"

definition getUserByOpenId :: "conn \<Rightarrow> string \<Rightarrow> conn \<times> user_row option" where
  "getUserByOpenId c openId =
     (case getDb c of
        (c1, None) \<Rightarrow> (c1, None)
      | (c1, Some db) \<Rightarrow> (c1, find (\<lambda>u. u_openId u = openId) (users db)))"

record user_public =
  up_id :: int
  up_name :: "string option"
  up_avatarUrl :: "string option"
  up_createdAt :: int

definition getUserPublicById :: "conn \<Rightarrow> int \<Rightarrow> conn \<times> user_public option" where
  "getUserPublicById c userId =
     (case getDb c of
        (c1, None) \<Rightarrow> (c1, None)
      | (c1, Some db) \<Rightarrow>
          (c1, map_option (\<lambda>u. \<lparr>up_id = u_id u, up_name = u_name u,
                                 up_avatarUrl = u_avatarUrl u, up_createdAt = u_createdAt u\<rparr>)
                 (find (\<lambda>u. u_id u = userId) (users db))))"

section \<open>Case studies\<close>

text \<open>
  The foreign-key checks of an insert: with enforcement off every insert passes them.
\<close>

definition userExists :: "store \<Rightarrow> int \<Rightarrow> bool" where
  "userExists db uid = (\<not> foreignKeys db \<or> (\<exists>u \<in> set (users db). u_id u = uid))"

definition caseStudyExists :: "store \<Rightarrow> int \<Rightarrow> bool" where
  "caseStudyExists db cid = (\<not> foreignKeys db \<or> (\<exists>cs \<in> set (caseStudies db). cs_id cs = cid))"

text \<open>
  The rowid of an inserted row: the id given with the row, or the next
  \<^verbatim>\<open>autoincrement\<close> value. An id that is already in the table violates the primary key.
\<close>

definition primaryKeyTaken :: "int option \<Rightarrow> int list \<Rightarrow> bool" where
  "primaryKeyTaken given ids = (case given of None \<Rightarrow> False | Some i \<Rightarrow> i \<in> set ids)"

definition rowidFor :: "int option \<Rightarrow> int \<Rightarrow> int list \<Rightarrow> int" where
  "rowidFor given sq ids = (case given of None \<Rightarrow> nextRowid sq ids | Some i \<Rightarrow> i)"

record case_study_view =
  csv_caseStudy :: case_study_row
  csv_authorName :: "string option"
  csv_authorAvatarUrl :: "string option"
  csv_reportCount :: int

text \<open>
  The counting loop shared by \<open>getAllCaseStudies\<close> and \<open>getAllQuests\<close>:
  \<^verbatim>\<open>map.set(k, (map.get(k) ?? 0) + 1)\<close> for every key, and the read
  \<^verbatim>\<open>map.get(k) ?? 0\<close>.
\<close>

definition countByKey :: "int list \<Rightarrow> (int \<rightharpoonup> int)" where
  "countByKey ks =
     fold (\<lambda>k m. m(k \<mapsto> (case m k of None \<Rightarrow> 0 | Some n \<Rightarrow> n) + 1)) ks Map.empty"

definition getOrZero :: "(int \<rightharpoonup> int) \<Rightarrow> int \<Rightarrow> int" where
  "getOrZero m k = (case m k of None \<Rightarrow> 0 | Some n \<Rightarrow> n)"

definition getAllCaseStudies :: "conn \<Rightarrow> conn \<times> case_study_view list" where
  "getAllCaseStudies c =
     (case getDb c of
        (c1, None) \<Rightarrow> (c1, [])
      | (c1, Some db) \<Rightarrow>
          (let casesResult =
                 orderBy (\<lambda>row. cs_createdAt (fst row))
                   (leftJoin (caseStudies db) (users db) (\<lambda>cs u. cs_userId cs = u_id u));
               reportsResult = map r_caseStudyId (reports db);
               reportCountByCaseId = countByKey reportsResult
           in (c1, map (\<lambda>row.
                 \<lparr>csv_caseStudy = fst row,
                  csv_authorName = (case snd row of None \<Rightarrow> None | Some u \<Rightarrow> u_name u),
                  csv_authorAvatarUrl = (case snd row of None \<Rightarrow> None | Some u \<Rightarrow> u_avatarUrl u),
                  csv_reportCount = getOrZero reportCountByCaseId (cs_id (fst row))\<rparr>)
                 casesResult)))"

definition getCaseStudyById :: "conn \<Rightarrow> int \<Rightarrow> conn \<times> case_study_row option" where
  "getCaseStudyById c i =
     (case getDb c of
        (c1, None) \<Rightarrow> (c1, None)
      | (c1, Some db) \<Rightarrow> (c1, find (\<lambda>cs. cs_id cs = i) (caseStudies db)))"

text \<open>\<^verbatim>\<open>InsertCaseStudy\<close>: the columns with a default or without \<^verbatim>\<open>not null\<close> may be absent.\<close>

record insertCaseStudy =
  ics_id :: "int option"
  ics_userId :: int
  ics_title :: string
  ics_description :: string
  ics_thumbnailUrl :: "string option"
  ics_thumbnailKey :: "string option"
  ics_category :: category
  ics_tools :: string
  ics_challenge :: string
  ics_solution :: string
  ics_steps :: string
  ics_impact :: "string option"
  ics_tags :: string
  ics_isRecommended :: "int option"
  ics_createdAt :: "int option"
  ics_updatedAt :: "int option"

definition newCaseStudyRow :: "int \<Rightarrow> insertCaseStudy \<Rightarrow> int \<Rightarrow> case_study_row" where
  "newCaseStudyRow i d now =
     \<lparr>cs_id = i,
      cs_userId = ics_userId d,
      cs_title = ics_title d,
      cs_description = ics_description d,
      cs_thumbnailUrl = ics_thumbnailUrl d,
      cs_thumbnailKey = ics_thumbnailKey d,
      cs_category = ics_category d,
      cs_tools = ics_tools d,
      cs_challenge = ics_challenge d,
      cs_solution = ics_solution d,
      cs_steps = ics_steps d,
      cs_impact = ics_impact d,
      cs_tags = ics_tags d,
      cs_isRecommended = (case ics_isRecommended d of None \<Rightarrow> 0 | Some b \<Rightarrow> b),
      cs_createdAt = (case ics_createdAt d of None \<Rightarrow> nowMs now | Some t \<Rightarrow> t),
      cs_updatedAt = (case ics_updatedAt d of None \<Rightarrow> nowMs now | Some t \<Rightarrow> t)\<rparr>"

definition insertCaseStudyRow :: "store \<Rightarrow> insertCaseStudy \<Rightarrow> int \<Rightarrow> error + store" where
  "insertCaseStudyRow db d now =
     (if primaryKeyTaken (ics_id d) (map cs_id (caseStudies db)) then Inl D1ConstraintError
      else if \<not> userExists db (ics_userId d) then Inl D1ConstraintError
      else (let i = rowidFor (ics_id d) (seq_caseStudies db) (map cs_id (caseStudies db))
            in Inr (db\<lparr>caseStudies :=
                         insertByRowid cs_id (newCaseStudyRow i d now) (caseStudies db),
                       seq_caseStudies := max (seq_caseStudies db) i\<rparr>)))"

text \<open>
  The lookup that follows the insert, \<^verbatim>\<open>... WHERE user_id = ? ORDER BY created_at DESC
  LIMIT 1\<close>, and the value \<^verbatim>\<open>inserted?.id || 0\<close> made from its result.
\<close>

definition latestCaseStudyOfUser :: "store \<Rightarrow> int \<Rightarrow> case_study_row list" where
  "latestCaseStudyOfUser db uid =
     take 1 (orderByDesc cs_createdAt (filter (\<lambda>cs. cs_userId cs = uid) (caseStudies db)))"

definition insertIdOf :: "int list \<Rightarrow> int" where
  "insertIdOf result = (case result of [] \<Rightarrow> 0 | i # _ \<Rightarrow> if i \<noteq> 0 then i else 0)"

definition createCaseStudy :: "conn \<Rightarrow> insertCaseStudy \<Rightarrow> int \<Rightarrow> conn \<times> (error + int)" where
  "createCaseStudy c d now =
     (case getDb c of
        (c1, None) \<Rightarrow> (c1, Inl (JsError ''Database not available''))
      | (c1, Some db) \<Rightarrow>
          (case insertCaseStudyRow db d now of
             Inl e \<Rightarrow> (c1, Inl e)
           | Inr db' \<Rightarrow>
               (c1\<lparr>c_db := Some db'\<rparr>,
                Inr (insertIdOf (map cs_id (latestCaseStudyOfUser db' (ics_userId d)))))))"

definition getUserCaseStudies :: "conn \<Rightarrow> int \<Rightarrow> conn \<times> case_study_row list" where
  "getUserCaseStudies c userId =
     (case getDb c of
        (c1, None) \<Rightarrow> (c1, [])
      | (c1, Some db) \<Rightarrow>
          (c1, orderBy cs_createdAt (filter (\<lambda>cs. cs_userId cs = userId) (caseStudies db))))"

section \<open>Quests\<close>

text \<open>
  A quest as a select of the table object \<^verbatim>\<open>quests\<close> returns it: the declared columns.
  The two undeclared columns are not part of the object, which reads them as
  \<^verbatim>\<open>undefined\<close>; here they are \<open>None\<close>.
\<close>

definition declaredColumns :: "quest_row \<Rightarrow> quest_row" where
  "declaredColumns q = q\<lparr>q_solvedAnswerId := None, q_solverUserId := None\<rparr>"

record quest_view =
  qv_quest :: quest_row
  qv_authorName :: "string option"
  qv_authorAvatarUrl :: "string option"
  qv_answerCount :: int

definition getAllQuests :: "conn \<Rightarrow> conn \<times> quest_view list" where
  "getAllQuests c =
     (case getDb c of
        (c1, None) \<Rightarrow> (c1, [])
      | (c1, Some db) \<Rightarrow>
          (let questsResult =
                 orderByDesc (\<lambda>row. q_createdAt (fst row))
                   (leftJoin (quests db) (users db) (\<lambda>q u. q_userId q = u_id u));
               answersResult = map qa_questId (questAnswers db);
               answerCountByQuestId = countByKey answersResult
           in (c1, map (\<lambda>row.
                 \<lparr>qv_quest = declaredColumns (fst row),
                  qv_authorName = (case snd row of None \<Rightarrow> None | Some u \<Rightarrow> u_name u),
                  qv_authorAvatarUrl = (case snd row of None \<Rightarrow> None | Some u \<Rightarrow> u_avatarUrl u),
                  qv_answerCount = getOrZero answerCountByQuestId (q_id (fst row))\<rparr>)
                 questsResult)))"

record quest_detail =
  qd_quest :: quest_row
  qd_authorName :: "string option"
  qd_authorAvatarUrl :: "string option"

definition getQuestById :: "conn \<Rightarrow> int \<Rightarrow> conn \<times> quest_detail option" where
  "getQuestById c i =
     (case getDb c of
        (c1, None) \<Rightarrow> (c1, None)
      | (c1, Some db) \<Rightarrow>
          (case take 1 (filter (\<lambda>row. q_id (fst row) = i)
                          (leftJoin (quests db) (users db) (\<lambda>q u. q_userId q = u_id u))) of
             [] \<Rightarrow> (c1, None)
           | row # _ \<Rightarrow>
               (c1, Some \<lparr>qd_quest = declaredColumns (fst row),
                          qd_authorName = (case snd row of None \<Rightarrow> None | Some u \<Rightarrow> u_name u),
                          qd_authorAvatarUrl =
                            (case snd row of None \<Rightarrow> None | Some u \<Rightarrow> u_avatarUrl u)\<rparr>)))"

record answer_view =
  av_answer :: quest_answer_row
  av_authorName :: "string option"
  av_authorAvatarUrl :: "string option"

definition getQuestAnswers :: "conn \<Rightarrow> int \<Rightarrow> conn \<times> answer_view list" where
  "getQuestAnswers c questId =
     (case getDb c of
        (c1, None) \<Rightarrow> (c1, [])
      | (c1, Some db) \<Rightarrow>
          (let result =
                 orderBy (\<lambda>row. qa_createdAt (fst row))
                   (filter (\<lambda>row. qa_questId (fst row) = questId)
                      (leftJoin (questAnswers db) (users db) (\<lambda>a u. qa_userId a = u_id u)))
           in (c1, map (\<lambda>row.
                 \<lparr>av_answer = fst row,
                  av_authorName = (case snd row of None \<Rightarrow> None | Some u \<Rightarrow> u_name u),
                  av_authorAvatarUrl =
                    (case snd row of None \<Rightarrow> None | Some u \<Rightarrow> u_avatarUrl u)\<rparr>)
                 result)))"

text \<open>
  \<^verbatim>\<open>InsertQuest\<close>, over the columns the table object \<^verbatim>\<open>quests\<close> declares; the two
  columns it does not declare are NULL in an inserted row.
\<close>

record insertQuest =
  iq_id :: "int option"
  iq_userId :: int
  iq_title :: string
  iq_content :: string
  iq_status :: "string option"
  iq_createdAt :: "int option"
  iq_updatedAt :: "int option"
  iq_closedAt :: "int option"

definition newQuestRow :: "int \<Rightarrow> insertQuest \<Rightarrow> int \<Rightarrow> quest_row" where
  "newQuestRow i d now =
     \<lparr>q_id = i,
      q_userId = iq_userId d,
      q_title = iq_title d,
      q_content = iq_content d,
      q_status = (case iq_status d of None \<Rightarrow> ''open'' | Some s \<Rightarrow> s),
      q_solvedAnswerId = None,
      q_solverUserId = None,
      q_createdAt = (case iq_createdAt d of None \<Rightarrow> nowMs now | Some t \<Rightarrow> t),
      q_updatedAt = (case iq_updatedAt d of None \<Rightarrow> nowMs now | Some t \<Rightarrow> t),
      q_closedAt = iq_closedAt d\<rparr>"

definition insertQuestRow :: "store \<Rightarrow> insertQuest \<Rightarrow> int \<Rightarrow> error + store" where
  "insertQuestRow db d now =
     (if primaryKeyTaken (iq_id d) (map q_id (quests db)) then Inl D1ConstraintError
      else if \<not> userExists db (iq_userId d) then Inl D1ConstraintError
      else (let i = rowidFor (iq_id d) (seq_quests db) (map q_id (quests db))
            in Inr (db\<lparr>quests := insertByRowid q_id (newQuestRow i d now) (quests db),
                       seq_quests := max (seq_quests db) i\<rparr>)))"

definition latestQuestOfUser :: "store \<Rightarrow> int \<Rightarrow> quest_row list" where
  "latestQuestOfUser db uid =
     take 1 (orderByDesc q_createdAt (filter (\<lambda>q. q_userId q = uid) (quests db)))"

definition createQuest :: "conn \<Rightarrow> insertQuest \<Rightarrow> int \<Rightarrow> conn \<times> (error + int)" where
  "createQuest c d now =
     (case getDb c of
        (c1, None) \<Rightarrow> (c1, Inl (JsError ''Database not available''))
      | (c1, Some db) \<Rightarrow>
          (case insertQuestRow db d now of
             Inl e \<Rightarrow> (c1, Inl e)
           | Inr db' \<Rightarrow>
               (c1\<lparr>c_db := Some db'\<rparr>,
                Inr (insertIdOf (map q_id (latestQuestOfUser db' (iq_userId d)))))))"

definition getQuestAnswerById :: "conn \<Rightarrow> int \<Rightarrow> conn \<times> quest_answer_row option" where
  "getQuestAnswerById c i =
     (case getDb c of
        (c1, None) \<Rightarrow> (c1, None)
      | (c1, Some db) \<Rightarrow> (c1, find (\<lambda>a. qa_id a = i) (questAnswers db)))"

datatype QuestClosedStatus = Finished | Suspended | Unsolved

fun statusText :: "QuestClosedStatus \<Rightarrow> string" where
  "statusText Finished = ''finished''"
| "statusText Suspended = ''suspended''"
| "statusText Unsolved = ''unsolved''"

record closeData =
  cd_status :: QuestClosedStatus
  cd_solvedAnswerId :: "int option"
  cd_solverUserId :: "int option"

text \<open>
  \<open>closeQuest\<close>: one \<^verbatim>\<open>UPDATE quests SET ... WHERE id = ?\<close>, whatever the row's status;
  \<open>closeSet\<close> is its \<^verbatim>\<open>.set({...})\<close> on a row, with \<open>now\<close> for \<^verbatim>\<open>Date.now()\<close>.
  The statement is built from the columns the table object \<^verbatim>\<open>quests\<close> declares: the keys
  \<^verbatim>\<open>solvedAnswerId\<close> and \<^verbatim>\<open>solverUserId\<close> of the object name none of them, so the
  update sets the status, \<^verbatim>\<open>closedAt\<close> and \<^verbatim>\<open>updatedAt\<close> and leaves the columns
  \<^verbatim>\<open>solved_answer_id\<close> and \<^verbatim>\<open>solver_user_id\<close> as they are.
\<close>

definition closeSet :: "closeData \<Rightarrow> int \<Rightarrow> quest_row \<Rightarrow> quest_row" where
  "closeSet d now q =
     q\<lparr>q_status := statusText (cd_status d),
       q_closedAt := Some now,
       q_updatedAt := now\<rparr>"

definition closeQuest :: "conn \<Rightarrow> int \<Rightarrow> closeData \<Rightarrow> int \<Rightarrow> conn \<times> (error + bool)" where
  "closeQuest c i d now =
     (case getDb c of
        (c1, None) \<Rightarrow> (c1, Inl (JsError ''Database not available''))
      | (c1, Some db) \<Rightarrow>
          (c1\<lparr>c_db := Some (db\<lparr>quests :=
                 map (\<lambda>q. if q_id q = i then closeSet d now q else q) (quests db)\<rparr>)\<rparr>,
           Inr True))"

section \<open>Favorites and reports\<close>

record favorite_view =
  fv_id :: int
  fv_caseStudyId :: int
  fv_createdAt :: int
  fv_caseStudy :: case_study_row

definition getUserFavorites :: "conn \<Rightarrow> int \<Rightarrow> conn \<times> favorite_view list" where
  "getUserFavorites c userId =
     (case getDb c of
        (c1, None) \<Rightarrow> (c1, [])
      | (c1, Some db) \<Rightarrow>
          (c1, map (\<lambda>row. \<lparr>fv_id = f_id (fst row), fv_caseStudyId = f_caseStudyId (fst row),
                            fv_createdAt = f_createdAt (fst row), fv_caseStudy = snd row\<rparr>)
                 (orderBy (\<lambda>row. f_createdAt (fst row))
                    (filter (\<lambda>row. f_userId (fst row) = userId)
                       (innerJoin (favorites db) (caseStudies db)
                          (\<lambda>f cs. f_caseStudyId f = cs_id cs))))))"

definition getUserReportedCaseStudyIds :: "conn \<Rightarrow> int \<Rightarrow> conn \<times> int list" where
  "getUserReportedCaseStudyIds c userId =
     (case getDb c of
        (c1, None) \<Rightarrow> (c1, [])
      | (c1, Some db) \<Rightarrow>
          (c1, map r_caseStudyId (filter (\<lambda>r. r_userId r = userId) (reports db))))"

definition isFavorite :: "conn \<Rightarrow> int \<Rightarrow> int \<Rightarrow> conn \<times> bool" where
  "isFavorite c userId caseStudyId =
     (case getDb c of
        (c1, None) \<Rightarrow> (c1, False)
      | (c1, Some db) \<Rightarrow>
          (let result = take 1 (filter (\<lambda>f. f_userId f = userId \<and> f_caseStudyId f = caseStudyId)
                                  (favorites db))
           in (c1, length result > 0)))"

text \<open>
  \<^verbatim>\<open>INSERT INTO favorites (user_id, case_study_id)\<close>: refused by the unique index
  \<^verbatim>\<open>favorites_user_case_unique\<close> when the pair is already there, and by the foreign keys,
  when they are enforced, if the user or the case study does not exist.
\<close>

definition insertFavoriteRow :: "store \<Rightarrow> int \<Rightarrow> int \<Rightarrow> int \<Rightarrow> error + store" where
  "insertFavoriteRow db userId caseStudyId now =
     (if \<exists>f \<in> set (favorites db). f_userId f = userId \<and> f_caseStudyId f = caseStudyId
      then Inl D1ConstraintError
      else if \<not> (userExists db userId \<and> caseStudyExists db caseStudyId) then Inl D1ConstraintError
      else (let i = nextRowid (seq_favorites db) (map f_id (favorites db))
            in Inr (db\<lparr>favorites := favorites db @
                         [\<lparr>f_id = i, f_userId = userId, f_caseStudyId = caseStudyId,
                           f_createdAt = nowMs now\<rparr>],
                       seq_favorites := i\<rparr>)))"

definition addFavorite :: "conn \<Rightarrow> int \<Rightarrow> int \<Rightarrow> int \<Rightarrow> conn \<times> (error + bool)" where
  "addFavorite c userId caseStudyId now =
     (case getDb c of
        (c1, None) \<Rightarrow> (c1, Inl (JsError ''Database not available''))
      | (c1, Some db) \<Rightarrow>
          (case insertFavoriteRow db userId caseStudyId now of
             Inr db' \<Rightarrow> (c1\<lparr>c_db := Some db'\<rparr>, Inr True)
           | Inl _ \<Rightarrow> (c1, Inr False)))"

text \<open>\<^verbatim>\<open>InsertReport\<close>.\<close>

record insertReport =
  ir_id :: "int option"
  ir_userId :: int
  ir_caseStudyId :: int
  ir_createdAt :: "int option"

definition insertReportRow :: "store \<Rightarrow> insertReport \<Rightarrow> int \<Rightarrow> error + store" where
  "insertReportRow db d now =
     (if primaryKeyTaken (ir_id d) (map r_id (reports db)) then Inl D1ConstraintError
      else if \<exists>r \<in> set (reports db). r_userId r = ir_userId d \<and> r_caseStudyId r = ir_caseStudyId d
      then Inl D1ConstraintError
      else if \<not> (userExists db (ir_userId d) \<and> caseStudyExists db (ir_caseStudyId d))
      then Inl D1ConstraintError
      else (let i = rowidFor (ir_id d) (seq_reports db) (map r_id (reports db))
            in Inr (db\<lparr>reports :=
                         insertByRowid r_id
                           \<lparr>r_id = i, r_userId = ir_userId d, r_caseStudyId = ir_caseStudyId d,
                            r_createdAt =
                              (case ir_createdAt d of None \<Rightarrow> nowMs now | Some t \<Rightarrow> t)\<rparr>
                           (reports db),
                       seq_reports := max (seq_reports db) i\<rparr>)))"

text \<open>\<open>createReport\<close> answers \<^verbatim>\<open>{ created: true }\<close> or \<^verbatim>\<open>{ created: false }\<close>.\<close>

definition createReport :: "conn \<Rightarrow> insertReport \<Rightarrow> int \<Rightarrow> conn \<times> (error + bool)" where
  "createReport c d now =
     (case getDb c of
        (c1, None) \<Rightarrow> (c1, Inl (JsError ''Database not available''))
      | (c1, Some db) \<Rightarrow>
          (case insertReportRow db d now of
             Inr db' \<Rightarrow> (c1\<lparr>c_db := Some db'\<rparr>, Inr True)
           | Inl _ \<Rightarrow> (c1, Inr False)))"

definition removeFavorite :: "conn \<Rightarrow> int \<Rightarrow> int \<Rightarrow> conn \<times> (error + bool)" where
  "removeFavorite c userId caseStudyId =
     (case getDb c of
        (c1, None) \<Rightarrow> (c1, Inl (JsError ''Database not available''))
      | (c1, Some db) \<Rightarrow>
          (c1\<lparr>c_db := Some (db\<lparr>favorites :=
                 filter (\<lambda>f. \<not> (f_userId f = userId \<and> f_caseStudyId f = caseStudyId))
                   (favorites db)\<rparr>)\<rparr>,
           Inr True))"

text \<open>
  \<^verbatim>\<open>DELETE FROM case_studies WHERE id = ?\<close>; with foreign keys enforced, the
  \<^verbatim>\<open>on delete cascade\<close> clauses of \<^verbatim>\<open>favorites\<close> and \<^verbatim>\<open>reports\<close> remove
  the rows that reference a deleted case study.
\<close>

definition deleteCaseStudyRows :: "store \<Rightarrow> int \<Rightarrow> store" where
  "deleteCaseStudyRows db i =
     (if foreignKeys db \<and> (\<exists>cs \<in> set (caseStudies db). cs_id cs = i)
      then db\<lparr>caseStudies := filter (\<lambda>cs. cs_id cs \<noteq> i) (caseStudies db),
               favorites := filter (\<lambda>f. f_caseStudyId f \<noteq> i) (favorites db),
               reports := filter (\<lambda>r. r_caseStudyId r \<noteq> i) (reports db)\<rparr>
      else db\<lparr>caseStudies := filter (\<lambda>cs. cs_id cs \<noteq> i) (caseStudies db)\<rparr>)"

definition deleteCaseStudy :: "conn \<Rightarrow> int \<Rightarrow> conn \<times> (error + bool)" where
  "deleteCaseStudy c i =
     (case getDb c of
        (c1, None) \<Rightarrow> (c1, Inl (JsError ''Database not available''))
      | (c1, Some db) \<Rightarrow>
          (let db1 = db\<lparr>favorites := filter (\<lambda>f. f_caseStudyId f \<noteq> i) (favorites db)\<rparr>;
               db2 = db1\<lparr>reports := filter (\<lambda>r. r_caseStudyId r \<noteq> i) (reports db1)\<rparr>;
               db3 = deleteCaseStudyRows db2 i
           in (c1\<lparr>c_db := Some db3\<rparr>, Inr True)))"

section \<open>Client: the four-state quest page\<close>

datatype QuestStatus = StOpen | StFinished | StSuspended | StUnsolved

datatype QuestFilter = FilterAll | FilterStatus QuestStatus

text \<open>
  \<open>normalizeQuestStatus\<close> takes \<^verbatim>\<open>string | null | undefined\<close>; \<open>None\<close> stands for both
  \<^verbatim>\<open>null\<close> and \<^verbatim>\<open>undefined\<close>, which no branch tells apart.
\<close>

definition normalizeQuestStatus :: "string option \<Rightarrow> QuestStatus" where
  "normalizeQuestStatus status =
     (if status = Some ''open'' then StOpen
      else if status = Some ''finished'' then StFinished
      else if status = Some ''suspended'' then StSuspended
      else if status = Some ''unsolved'' then StUnsolved
      else if status = Some ''closed'' then StUnsolved
      else StUnsolved)"

datatype icon = Circle | CheckCircle2 | PauseCircle | XCircle

record statusMeta =
  sm_label :: string
  sm_className :: string
  sm_icon :: icon

fun getQuestStatusMeta :: "QuestStatus \<Rightarrow> statusMeta" where
  "getQuestStatusMeta StOpen =
     \<lparr>sm_label = ''Open'',
      sm_className = ''bg-primary/10 text-primary border-primary/30'',
      sm_icon = Circle\<rparr>"
| "getQuestStatusMeta StFinished =
     \<lparr>sm_label = ''Finished'',
      sm_className =
        ''bg-emerald-500/10 text-emerald-700 border-emerald-500/30 dark:text-emerald-300'',
      sm_icon = CheckCircle2\<rparr>"
| "getQuestStatusMeta StSuspended =
     \<lparr>sm_label = ''Suspended'',
      sm_className = ''bg-amber-500/10 text-amber-700 border-amber-500/30 dark:text-amber-300'',
      sm_icon = PauseCircle\<rparr>"
| "getQuestStatusMeta StUnsolved =
     \<lparr>sm_label = ''Unsolved'',
      sm_className = ''bg-rose-500/10 text-rose-700 border-rose-500/30 dark:text-rose-300'',
      sm_icon = XCircle\<rparr>"

text \<open>
  The rows of the page are those of \<open>getAllQuests\<close>; the selected quest is a quest row or
  \<^verbatim>\<open>null\<close>.
\<close>

definition selectedQuestStatus :: "quest_row option \<Rightarrow> QuestStatus" where
  "selectedQuestStatus selectedQuest = normalizeQuestStatus (map_option q_status selectedQuest)"

definition isSelectedQuestClosed :: "quest_row option \<Rightarrow> bool" where
  "isSelectedQuestClosed selectedQuest =
     (selectedQuest \<noteq> None \<and> selectedQuestStatus selectedQuest \<noteq> StOpen)"

text \<open>
  \<open>filteredQuests\<close>. The string functions of the search are parameters:
  \<open>trimLower s\<close> is \<^verbatim>\<open>s.trim().toLowerCase()\<close> and \<open>includesLower t q\<close> is
  \<^verbatim>\<open>t.toLowerCase().includes(q)\<close>.
\<close>

definition matchesSearch :: "(string \<Rightarrow> string) \<Rightarrow> (string \<Rightarrow> string \<Rightarrow> bool) \<Rightarrow> string \<Rightarrow> quest_view \<Rightarrow> bool" where
  "matchesSearch trimLower includesLower searchQuery quest =
     (let q = trimLower searchQuery
      in length q = 0
         \<or> includesLower (q_title (qv_quest quest)) q
         \<or> includesLower (q_content (qv_quest quest)) q
         \<or> includesLower (case qv_authorName quest of None \<Rightarrow> [] | Some n \<Rightarrow> n) q)"

definition filteredQuests :: "(string \<Rightarrow> string) \<Rightarrow> (string \<Rightarrow> string \<Rightarrow> bool) \<Rightarrow> QuestFilter \<Rightarrow> quest_view list \<Rightarrow> string \<Rightarrow> quest_view list" where
  "filteredQuests trimLower includesLower flt qs searchQuery =
     filter (\<lambda>quest.
        (let status = normalizeQuestStatus (Some (q_status (qv_quest quest)));
             matchesFilter = (flt = FilterAll \<or> FilterStatus status = flt)
         in matchesFilter \<and> matchesSearch trimLower includesLower searchQuery quest)) qs"

record questCountsRow =
  qc_all :: nat
  qc_open :: nat
  qc_finished :: nat
  qc_suspended :: nat
  qc_unsolved :: nat

fun countStatus :: "QuestStatus \<Rightarrow> questCountsRow \<Rightarrow> questCountsRow" where
  "countStatus StOpen counts = counts\<lparr>qc_open := qc_open counts + 1\<rparr>"
| "countStatus StFinished counts = counts\<lparr>qc_finished := qc_finished counts + 1\<rparr>"
| "countStatus StSuspended counts = counts\<lparr>qc_suspended := qc_suspended counts + 1\<rparr>"
| "countStatus StUnsolved counts = counts\<lparr>qc_unsolved := qc_unsolved counts + 1\<rparr>"

definition questCounts :: "quest_view list \<Rightarrow> questCountsRow" where
  "questCounts qs =
     fold (\<lambda>quest counts. countStatus (normalizeQuestStatus (Some (q_status (qv_quest quest)))) counts)
       qs
       \<lparr>qc_all = length qs, qc_open = 0, qc_finished = 0, qc_suspended = 0, qc_unsolved = 0\<rparr>"

text \<open>The badge of a row in the list: \<^verbatim>\<open>getQuestStatusMeta(normalizeQuestStatus(quest.status))\<close>.\<close>

definition listBadge :: "quest_view \<Rightarrow> statusMeta" where
  "listBadge quest = getQuestStatusMeta (normalizeQuestStatus (Some (q_status (qv_quest quest))))"

text \<open>
  What a handler shows. The handlers below take the RPC mutation they call as a parameter:
  \<open>mutateAsync\<close> maps the server state and the request to the new server state and either
  a thrown error or the result.
\<close>

datatype ui = Nothing | RedirectToLogin | ToastError string | ToastSuccess string | ToastMessage string

record closeRequest =
  cr_questId :: int
  cr_outcome :: QuestClosedStatus
  cr_solvedAnswerId :: "int option"

text \<open>Of the answer of the close mutation the page reads \<^verbatim>\<open>result.alreadyClosed\<close>.\<close>

record closeResult =
  alreadyClosed :: bool

text \<open>
  \<open>handleConfirmCloseQuest\<close> followed by the \<^verbatim>\<open>onSuccess\<close> callback of
  \<^verbatim>\<open>closeQuestMutation\<close>. \<open>toNumber\<close> is \<^verbatim>\<open>Number\<close> on the value of the select box, and
  \<open>answersLength\<close> is \<^verbatim>\<open>answers.length\<close>.
\<close>

definition handleConfirmCloseQuest :: "('s \<Rightarrow> closeRequest \<Rightarrow> 's \<times> ('e + closeResult)) \<Rightarrow> (string \<Rightarrow> int) \<Rightarrow> 's \<Rightarrow> int option \<Rightarrow> bool \<Rightarrow> QuestClosedStatus \<Rightarrow> nat \<Rightarrow> string \<Rightarrow> 's \<times> ui" where
  "handleConfirmCloseQuest mutateAsync toNumber s selectedQuestId isSelectedQuestOwner closeOutcome
       answersLength selectedSolvedAnswerId =
     (case selectedQuestId of
        None \<Rightarrow> (s, Nothing)
      | Some questId \<Rightarrow>
          (if questId = 0 \<or> \<not> isSelectedQuestOwner then (s, Nothing)
           else (let isFinished = (closeOutcome = Finished)
                 in if isFinished \<and> answersLength = 0
                    then (s, ToastError ''Cannot mark as finished without any answers.'')
                    else if isFinished \<and> selectedSolvedAnswerId = []
                    then (s, ToastError ''Choose the solver comment before closing as finished.'')
                    else (case mutateAsync s
                                 \<lparr>cr_questId = questId,
                                  cr_outcome = closeOutcome,
                                  cr_solvedAnswerId =
                                    (if isFinished then Some (toNumber selectedSolvedAnswerId)
                                     else None)\<rparr> of
                            (s', Inl e) \<Rightarrow> (s', ToastError ''Failed to close quest.'')
                          | (s', Inr result) \<Rightarrow>
                              (if alreadyClosed result
                               then (s', ToastMessage ''Quest was already closed.'')
                               else (s', ToastSuccess ''Quest closed.''))))))"

section \<open>Client: the two-state quest page\<close>

text \<open>
  \<^verbatim>\<open>client/src/pages/Quest.tsx\<close> compares the status it receives with the two texts it
  knows.
\<close>

datatype QuestFilter_QuestTsx = AllQuests | OpenQuests | ClosedQuests

fun filterText_QuestTsx :: "QuestFilter_QuestTsx \<Rightarrow> string" where
  "filterText_QuestTsx AllQuests = ''all''"
| "filterText_QuestTsx OpenQuests = ''open''"
| "filterText_QuestTsx ClosedQuests = ''closed''"

definition isSelectedQuestClosed_QuestTsx :: "quest_row option \<Rightarrow> bool" where
  "isSelectedQuestClosed_QuestTsx selectedQuest = (map_option q_status selectedQuest = Some ''closed'')"

definition matchesFilter_QuestTsx :: "QuestFilter_QuestTsx \<Rightarrow> quest_view \<Rightarrow> bool" where
  "matchesFilter_QuestTsx flt quest =
     (flt = AllQuests \<or> q_status (qv_quest quest) = filterText_QuestTsx flt)"

definition listBadge_QuestTsx :: "quest_view \<Rightarrow> string" where
  "listBadge_QuestTsx quest = (if q_status (qv_quest quest) = ''closed'' then ''Closed'' else ''Open'')"

section \<open>Client: reporting a case study\<close>

text \<open>Of the answer of the report mutation the page reads \<^verbatim>\<open>result.alreadyReported\<close>.\<close>

record reportResult =
  alreadyReported :: bool

text \<open>
  \<open>handleReportCase\<close> of \<^verbatim>\<open>client/src/pages/Home.tsx\<close>. \<open>userId\<close> is
  \<^verbatim>\<open>user?.id\<close>, and \<open>ownerUserId\<close> is what the page passes for it, the
  \<^verbatim>\<open>userId\<close> of the case study it shows.
\<close>

definition handleReportCase :: "('s \<Rightarrow> int \<Rightarrow> 's \<times> ('e + reportResult)) \<Rightarrow> 's \<Rightarrow> bool \<Rightarrow> int option \<Rightarrow> int \<Rightarrow> int \<Rightarrow> 's \<times> ui" where
  "handleReportCase mutateAsync s isAuthenticated userId caseId ownerUserId =
     (if \<not> isAuthenticated then (s, RedirectToLogin)
      else if userId = Some ownerUserId then (s, ToastError ''You cannot report your own post.'')
      else (case mutateAsync s caseId of
              (s', Inl e) \<Rightarrow> (s', ToastError ''Failed to report this post.'')
            | (s', Inr result) \<Rightarrow>
                (if alreadyReported result
                 then (s', ToastError ''You already reported this post.'')
                 else (s', ToastSuccess ''Post reported. Admin has been notified.''))))"

section \<open>RPC procedures\<close>

text \<open>
  Modelled from the spec: how an RPC procedure fails. The RPC layer
  (\<^verbatim>\<open>server/routers.ts\<close>) is not among the sources; the spec's error taxonomy has a
  rejected call (authorization denied, validation failure; a missing row is taken as a
  rejection of its own) beside an error thrown by the data-access layer.
\<close>

datatype rejection = NotFound | AuthorizationDenied | ValidationFailure

datatype rpc_error = Rejected rejection | Thrown error

text \<open>
  Modelled from the spec: the write of the procedure \<^verbatim>\<open>quests.close\<close>, "a single atomic
  state transition" made with \<open>closeQuest\<close> of \<^verbatim>\<open>server/db.ts\<close>, answered with
  \<^verbatim>\<open>alreadyClosed: false\<close>.
\<close>

definition closeWith :: "conn \<Rightarrow> int \<Rightarrow> closeData \<Rightarrow> int \<Rightarrow> conn \<times> (rpc_error + closeResult)" where
  "closeWith c questId d now =
     (case closeQuest c questId d now of
        (c', Inl e) \<Rightarrow> (c', Inl (Thrown e))
      | (c', Inr _) \<Rightarrow> (c', Inr \<lparr>alreadyClosed = False\<rparr>))"

text \<open>
  Modelled from the spec: the outcome \<^verbatim>\<open>finished\<close> of \<^verbatim>\<open>quests.close\<close>, which
  "requires at least one existing answer and a designated solver-answer id belonging to that
  quest"; the solver-user id is "derived from the chosen answer's author". The reads are
  \<open>getQuestAnswers\<close> and \<open>getQuestAnswerById\<close> of \<^verbatim>\<open>server/db.ts\<close>.
\<close>

definition closeAsFinished :: "conn \<Rightarrow> closeRequest \<Rightarrow> int \<Rightarrow> conn \<times> (rpc_error + closeResult)" where
  "closeAsFinished c input now =
     (case getQuestAnswers c (cr_questId input) of
        (c2, answers) \<Rightarrow>
          (if length answers = 0 then (c2, Inl (Rejected ValidationFailure))
           else case cr_solvedAnswerId input of
             None \<Rightarrow> (c2, Inl (Rejected ValidationFailure))
           | Some aid \<Rightarrow>
               (case getQuestAnswerById c2 aid of
                  (c3, None) \<Rightarrow> (c3, Inl (Rejected ValidationFailure))
                | (c3, Some answer) \<Rightarrow>
                    (if qa_questId answer \<noteq> cr_questId input
                     then (c3, Inl (Rejected ValidationFailure))
                     else closeWith c3 (cr_questId input)
                            \<lparr>cd_status = Finished,
                             cd_solvedAnswerId = Some aid,
                             cd_solverUserId = Some (qa_userId answer)\<rparr> now))))"

text \<open>
  Modelled from the spec: the procedure \<^verbatim>\<open>quests.close\<close> of the RPC layer
  (\<^verbatim>\<open>server/routers.ts\<close>, which is not among the sources). "Only the quest's author may
  close it"; "re-closing an already-terminal quest is a no-op that reports already closed
  rather than erroring or re-transitioning"; the outcomes \<^verbatim>\<open>suspended\<close> and
  \<^verbatim>\<open>unsolved\<close> set the solved-answer id and the solver-user id to null. The quest is read
  with \<open>getQuestById\<close> of \<^verbatim>\<open>server/db.ts\<close>.
\<close>

definition quests_close :: "conn \<Rightarrow> int \<Rightarrow> closeRequest \<Rightarrow> int \<Rightarrow> conn \<times> (rpc_error + closeResult)" where
  "quests_close c callerId input now =
     (case getQuestById c (cr_questId input) of
        (c1, None) \<Rightarrow> (c1, Inl (Rejected NotFound))
      | (c1, Some quest) \<Rightarrow>
          (if q_userId (qd_quest quest) \<noteq> callerId then (c1, Inl (Rejected AuthorizationDenied))
           else if q_status (qd_quest quest) \<noteq> ''open''
           then (c1, Inr \<lparr>alreadyClosed = True\<rparr>)
           else if cr_outcome input = Finished then closeAsFinished c1 input now
           else closeWith c1 (cr_questId input)
                  \<lparr>cd_status = cr_outcome input,
                   cd_solvedAnswerId = None,
                   cd_solverUserId = None\<rparr> now))"

text \<open>
  Modelled from the spec: the procedure \<^verbatim>\<open>caseStudies.toggleFavorite\<close> of the RPC layer
  (\<^verbatim>\<open>server/routers.ts\<close>, which is not among the sources): it "checks existing favorite
  row; if present, deletes it; if absent, inserts it", with \<open>isFavorite\<close>,
  \<open>removeFavorite\<close> and \<open>addFavorite\<close> of \<^verbatim>\<open>server/db.ts\<close>.
\<close>

definition caseStudies_toggleFavorite :: "conn \<Rightarrow> int \<Rightarrow> int \<Rightarrow> int \<Rightarrow> conn \<times> (rpc_error + unit)" where
  "caseStudies_toggleFavorite c userId caseStudyId now =
     (case isFavorite c userId caseStudyId of
        (c1, existing) \<Rightarrow>
          (case (if existing then removeFavorite c1 userId caseStudyId
                 else addFavorite c1 userId caseStudyId now) of
             (c2, Inl e) \<Rightarrow> (c2, Inl (Thrown e))
           | (c2, Inr _) \<Rightarrow> (c2, Inr ())))"

text \<open>
  Modelled from the spec: the procedure \<^verbatim>\<open>caseStudies.report\<close> of the RPC layer
  (\<^verbatim>\<open>server/routers.ts\<close>, which is not among the sources): "one report per (user, case
  study); reporting own post is rejected; repeat reports return an already reported signal
  rather than erroring". The case study is read with \<open>getCaseStudyById\<close> and the report is
  written with \<open>createReport\<close> of \<^verbatim>\<open>server/db.ts\<close>, whose \<^verbatim>\<open>created: false\<close> is the
  signal; the spec names no kind for the rejection of an own post, which is taken as a
  validation failure.
\<close>

definition caseStudies_report :: "conn \<Rightarrow> int \<Rightarrow> int \<Rightarrow> int \<Rightarrow> conn \<times> (rpc_error + reportResult)" where
  "caseStudies_report c callerId caseStudyId now =
     (case getCaseStudyById c caseStudyId of
        (c1, None) \<Rightarrow> (c1, Inl (Rejected NotFound))
      | (c1, Some caseStudy) \<Rightarrow>
          (if cs_userId caseStudy = callerId then (c1, Inl (Rejected ValidationFailure))
           else case createReport c1
                       \<lparr>ir_id = None, ir_userId = callerId, ir_caseStudyId = caseStudyId,
                        ir_createdAt = None\<rparr> now of
                  (c2, Inl e) \<Rightarrow> (c2, Inl (Thrown e))
                | (c2, Inr created) \<Rightarrow> (c2, Inr \<lparr>alreadyReported = \<not> created\<rparr>)))"

section \<open>Auxiliary notions for the statements\<close>

text \<open>A connection on which the three lazy schema steps have run.\<close>

definition ensured :: "conn \<Rightarrow> bool" where
  "ensured c = (avatarColumnEnsured c \<and> reportsTableEnsured c \<and> questTablesEnsured c)"

text \<open>The number of favorite rows, and of report rows, of a user for a case study.\<close>

definition favoriteCount :: "store \<Rightarrow> int \<Rightarrow> int \<Rightarrow> nat" where
  "favoriteCount db userId caseStudyId =
     length (filter (\<lambda>f. f_userId f = userId \<and> f_caseStudyId f = caseStudyId) (favorites db))"

definition reportCount :: "store \<Rightarrow> int \<Rightarrow> int \<Rightarrow> nat" where
  "reportCount db userId caseStudyId =
     length (filter (\<lambda>r. r_userId r = userId \<and> r_caseStudyId r = caseStudyId) (reports db))"

text \<open>The favorites relation: the pairs of a user and a case study that have a favorite row.\<close>

definition favoritePairs :: "store \<Rightarrow> (int \<times> int) set" where
  "favoritePairs db = set (map (\<lambda>f. (f_userId f, f_caseStudyId f)) (favorites db))"

text \<open>The role stored for an external auth id: that of the first user row with this openId.\<close>

definition storedRole :: "conn \<Rightarrow> string \<Rightarrow> role option" where
  "storedRole c openId =
     (case c_db c of
        None \<Rightarrow> None
      | Some db \<Rightarrow> map_option u_role (find (\<lambda>u. u_openId u = openId) (users db)))"

text \<open>A row of the quest list with a stored status \<^verbatim>\<open>closed\<close> replaced by \<^verbatim>\<open>unsolved\<close>.\<close>

definition unsolvedForClosed :: "quest_view \<Rightarrow> quest_view" where
  "unsolvedForClosed v =
     (if q_status (qv_quest v) = ''closed''
      then v\<lparr>qv_quest := (qv_quest v)\<lparr>q_status := ''unsolved''\<rparr>\<rparr>
      else v)"

section \<open>Example states\<close>

text \<open>
  A small database on which the theorems below are instantiated: two users, two case studies
  of the first user created within the same second, one favorite and one report of the second
  user, an open quest with two answers, and a quest closed under the early two-state scheme.
\<close>

definition alice :: user_row where
  "alice = \<lparr>u_id = 1, u_openId = ''alice'', u_name = Some ''Alice'', u_email = None,
            u_avatarUrl = Some ''a.png'', u_loginMethod = Some ''google'', u_role = RoleUser,
            u_createdAt = 1000, u_updatedAt = 1000, u_lastSignedIn = 1000\<rparr>"

definition bob :: user_row where
  "bob = \<lparr>u_id = 2, u_openId = ''bob'', u_name = None, u_email = None,
          u_avatarUrl = None, u_loginMethod = Some ''google'', u_role = RoleAdmin,
          u_createdAt = 2000, u_updatedAt = 2000, u_lastSignedIn = 2000\<rparr>"

definition caseData :: insertCaseStudy where
  "caseData = \<lparr>ics_id = None, ics_userId = 1, ics_title = ''t'', ics_description = ''d'',
               ics_thumbnailUrl = None, ics_thumbnailKey = None, ics_category = Prompt,
               ics_tools = ''[]'', ics_challenge = ''c'', ics_solution = ''s'',
               ics_steps = ''[]'', ics_impact = None, ics_tags = ''[]'',
               ics_isRecommended = None, ics_createdAt = None, ics_updatedAt = None\<rparr>"

definition case1 :: case_study_row where
  "case1 = newCaseStudyRow 1 caseData 5000"

definition case2 :: case_study_row where
  "case2 = newCaseStudyRow 2 caseData 5400"

definition questData :: insertQuest where
  "questData = \<lparr>iq_id = None, iq_userId = 1, iq_title = ''t'', iq_content = ''c'',
                iq_status = None,
                iq_createdAt = None, iq_updatedAt = None, iq_closedAt = None\<rparr>"

definition quest1 :: quest_row where
  "quest1 = newQuestRow 1 questData 7000"

definition quest2 :: quest_row where
  "quest2 = (newQuestRow 2 questData 8000)\<lparr>q_status := ''closed'', q_closedAt := Some 8500\<rparr>"

definition answer1 :: quest_answer_row where
  "answer1 = \<lparr>qa_id = 1, qa_questId = 1, qa_userId = 2, qa_content = ''x'',
              qa_createdAt = 9000, qa_updatedAt = 9000\<rparr>"

definition answer2 :: quest_answer_row where
  "answer2 = \<lparr>qa_id = 2, qa_questId = 1, qa_userId = 1, qa_content = ''y'',
              qa_createdAt = 8000, qa_updatedAt = 8000\<rparr>"

text \<open>An identity as the OAuth callback upserts it, with or without an explicit role.\<close>

definition signIn :: "string \<Rightarrow> role option \<Rightarrow> insertUser" where
  "signIn openId r =
     \<lparr>iu_id = None, iu_openId = openId, iu_name = None, iu_email = None, iu_avatarUrl = None,
      iu_loginMethod = None, iu_role = r, iu_createdAt = None, iu_updatedAt = None,
      iu_lastSignedIn = Some 9000\<rparr>"

definition exampleStore :: store where
  "exampleStore =
     \<lparr>users = [alice, bob],
      caseStudies = [case1, case2],
      favorites = [\<lparr>f_id = 1, f_userId = 2, f_caseStudyId = 1, f_createdAt = 6000\<rparr>],
      reports = [\<lparr>r_id = 1, r_userId = 2, r_caseStudyId = 2, r_createdAt = 6000\<rparr>],
      quests = [quest1, quest2],
      questAnswers = [answer1, answer2],
      seq_users = 2, seq_caseStudies = 2, seq_favorites = 1, seq_reports = 1,
      seq_quests = 2, seq_questAnswers = 2,
      foreignKeys = True\<rparr>"

definition exampleConn :: conn where
  "exampleConn = \<lparr>c_db = Some exampleStore, avatarColumnEnsured = False,
                   reportsTableEnsured = False, questTablesEnsured = False,
                   bindingHasPrepare = True\<rparr>"

definition noConn :: conn where
  "noConn = \<lparr>c_db = None, avatarColumnEnsured = False, reportsTableEnsured = False,
              questTablesEnsured = False, bindingHasPrepare = True\<rparr>"

section \<open>Facts about the connection\<close>

lemma getDb_None: "c_db c = None \<Longrightarrow> getDb c = (c, None)"
  by (simp add: getDb_def)

lemma getDb_Some_ex:
  assumes "c_db c = Some db"
  shows "\<exists>c1 db1. getDb c = (c1, Some db1) \<and> c_db c1 = Some db1 \<and> ensured c1
           \<and> (db1 = db \<or> db1 = db\<lparr>quests := legacyStatusUpdate (quests db)\<rparr>)"
  using assms
  by (cases "avatarColumnEnsured c"; cases "reportsTableEnsured c";
      cases "questTablesEnsured c"; cases "bindingHasPrepare c")
     (simp_all add: getDb_def ensureQuestTables_def ensureReportsTable_def
        ensureAvatarColumn_def ensured_def)

lemma getDb_Some:
  assumes "c_db c = Some db"
  obtains c1 db1 where "getDb c = (c1, Some db1)" and "c_db c1 = Some db1" and "ensured c1"
    and "db1 = db\<lparr>quests := quests db1\<rparr>"
    and "quests db1 = quests db \<or> quests db1 = legacyStatusUpdate (quests db)"
proof -
  from getDb_Some_ex [OF assms] obtain c1 db1 where
    "getDb c = (c1, Some db1)" "c_db c1 = Some db1" "ensured c1"
    "db1 = db \<or> db1 = db\<lparr>quests := legacyStatusUpdate (quests db)\<rparr>"
    by blast
  then show ?thesis
    by (intro that [of c1 db1]) auto
qed

lemma getDb_ensured: "ensured c \<Longrightarrow> c_db c = Some db \<Longrightarrow> getDb c = (c, Some db)"
  by (simp add: getDb_def ensureQuestTables_def ensureReportsTable_def ensureAvatarColumn_def
      ensured_def)

lemma ensured_c_db_update: "ensured (c\<lparr>c_db := x\<rparr>) = ensured c"
  by (simp add: ensured_def)

lemma getDb_exampleConn:
  "getDb exampleConn =
     (exampleConn\<lparr>avatarColumnEnsured := True, reportsTableEnsured := True,
                  questTablesEnsured := True,
                  c_db := Some (exampleStore\<lparr>quests := [quest1, quest2\<lparr>q_status := ''unsolved''\<rparr>]\<rparr>)\<rparr>,
      Some (exampleStore\<lparr>quests := [quest1, quest2\<lparr>q_status := ''unsolved''\<rparr>]\<rparr>))"
  by (simp add: getDb_def ensureQuestTables_def ensureReportsTable_def ensureAvatarColumn_def
      exampleConn_def exampleStore_def legacyStatusUpdate_def quest1_def quest2_def
      newQuestRow_def questData_def)

section \<open>Facts about the engine\<close>

lemma fold_max_bounds:
  fixes a :: int
  shows "a \<le> fold max ids a \<and> (\<forall>i \<in> set ids. i \<le> fold max ids a)"
proof (induction ids arbitrary: a)
  case Nil
  show ?case by simp
next
  case (Cons j ids)
  from Cons [of "max j a"] show ?case
    by auto
qed

lemma nextRowid_greater: "\<forall>i \<in> set ids. i < nextRowid sq ids"
  using fold_max_bounds [of 0 ids] by (auto simp add: nextRowid_def)

lemma insertByRowid_last:
  assumes "\<forall>r \<in> set rows. rowid r < rowid row"
  shows "insertByRowid rowid row rows = rows @ [row]"
  using assms unfolding insertByRowid_def by (induction rows) auto

lemma set_insertByRowid: "set (insertByRowid rowid row rows) = insert row (set rows)"
  by (simp add: insertByRowid_def set_insort_key)

lemma declaredColumns_fields:
  "q_id (declaredColumns q) = q_id q" "q_userId (declaredColumns q) = q_userId q"
  "q_status (declaredColumns q) = q_status q" "q_createdAt (declaredColumns q) = q_createdAt q"
  by (simp_all add: declaredColumns_def)

section \<open>Deleting a case study\<close>

text \<open>
  C5. Once \<open>deleteCaseStudy\<close> has completed on an initialised connection, no favorite and no
  report refers to the deleted case study, the case study itself is gone, and what is left
  of the three tables is exactly the rows of the other case studies, in their order; users
  and quest answers are untouched.
\<close>

theorem deleteCaseStudy_removes_dependents:
  assumes "c_db c = Some db"
  shows "\<exists>c' db'. deleteCaseStudy c i = (c', Inr True) \<and> c_db c' = Some db'
           \<and> (\<forall>f \<in> set (favorites db'). f_caseStudyId f \<noteq> i)
           \<and> (\<forall>r \<in> set (reports db'). r_caseStudyId r \<noteq> i)
           \<and> (\<forall>cs \<in> set (caseStudies db'). cs_id cs \<noteq> i)
           \<and> favorites db' = filter (\<lambda>f. f_caseStudyId f \<noteq> i) (favorites db)
           \<and> reports db' = filter (\<lambda>r. r_caseStudyId r \<noteq> i) (reports db)
           \<and> caseStudies db' = filter (\<lambda>cs. cs_id cs \<noteq> i) (caseStudies db)
           \<and> users db' = users db \<and> questAnswers db' = questAnswers db"
proof -
  from assms obtain c1 db1 where g: "getDb c = (c1, Some db1)"
    and eq: "db1 = db\<lparr>quests := quests db1\<rparr>"
    by (rule getDb_Some)
  have f: "favorites db1 = favorites db" and r: "reports db1 = reports db"
    and cs: "caseStudies db1 = caseStudies db" and u: "users db1 = users db"
    and qa: "questAnswers db1 = questAnswers db"
    by (subst eq, simp)+
  show ?thesis
    by (simp add: deleteCaseStudy_def g deleteCaseStudyRows_def Let_def f r cs u qa)
qed

theorem deleteCaseStudy_removes_dependents_witness:
  "c_db exampleConn = Some exampleStore
   \<and> (\<exists>c' db'. deleteCaseStudy exampleConn 1 = (c', Inr True) \<and> c_db c' = Some db'
         \<and> favorites db' = []
         \<and> reports db' = [\<lparr>r_id = 1, r_userId = 2, r_caseStudyId = 2, r_createdAt = 6000\<rparr>]
         \<and> caseStudies db' = [case2])"
proof -
  have h: "c_db exampleConn = Some exampleStore"
    by (simp add: exampleConn_def)
  have c: "cs_id case1 = 1" "cs_id case2 = 2"
    by (simp_all add: case1_def case2_def newCaseStudyRow_def)
  from deleteCaseStudy_removes_dependents [OF h, of 1]
  have "\<exists>c' db'. deleteCaseStudy exampleConn 1 = (c', Inr True) \<and> c_db c' = Some db'
         \<and> favorites db' = []
         \<and> reports db' = [\<lparr>r_id = 1, r_userId = 2, r_caseStudyId = 2, r_createdAt = 6000\<rparr>]
         \<and> caseStudies db' = [case2]"
    by (auto simp add: exampleStore_def c)
  with h show ?thesis by blast
qed

section \<open>Reads without a database\<close>

text \<open>
  C8. On a connection that was never initialised (\<^verbatim>\<open>_db\<close> is null) every read of the
  data-access layer returns its empty answer, the empty list, \<open>False\<close> or \<open>None\<close> for
  \<^verbatim>\<open>undefined\<close>, and leaves the module state as it was. None of these functions has a
  throwing branch: their result type carries no error.
\<close>

theorem reads_without_database:
  assumes "c_db c = None"
  shows "getAllCaseStudies c = (c, [])
       \<and> getCaseStudyById c i = (c, None)
       \<and> getUserCaseStudies c userId = (c, [])
       \<and> getAllQuests c = (c, [])
       \<and> getQuestById c i = (c, None)
       \<and> getQuestAnswers c i = (c, [])
       \<and> getQuestAnswerById c i = (c, None)
       \<and> getUserFavorites c userId = (c, [])
       \<and> getUserReportedCaseStudyIds c userId = (c, [])
       \<and> isFavorite c userId i = (c, False)
       \<and> getUserByOpenId c openId = (c, None)
       \<and> getUserPublicById c userId = (c, None)"
  using getDb_None [OF assms]
  by (simp add: getAllCaseStudies_def getCaseStudyById_def getUserCaseStudies_def
      getAllQuests_def getQuestById_def getQuestAnswers_def getQuestAnswerById_def
      getUserFavorites_def getUserReportedCaseStudyIds_def isFavorite_def
      getUserByOpenId_def getUserPublicById_def)

theorem reads_without_database_witness:
  "c_db noConn = None
   \<and> getAllCaseStudies noConn = (noConn, [])
   \<and> getAllQuests noConn = (noConn, [])
   \<and> getQuestAnswers noConn 1 = (noConn, [])
   \<and> getUserFavorites noConn 2 = (noConn, [])
   \<and> isFavorite noConn 2 1 = (noConn, False)
   \<and> getUserByOpenId noConn ''alice'' = (noConn, None)"
proof -
  have h: "c_db noConn = None"
    by (simp add: noConn_def)
  from reads_without_database [OF h, of 1 2 "''alice''"] h show ?thesis
    by simp
qed

section \<open>Listings\<close>

lemma leftJoin_row_iff:
  "(x, yo) \<in> set (leftJoin xs ys on) \<longleftrightarrow>
     x \<in> set xs \<and> ((\<exists>y \<in> set ys. on x y \<and> yo = Some y) \<or> (yo = None \<and> (\<forall>y \<in> set ys. \<not> on x y)))"
proof -
  have one: "\<And>x'. (x, yo) \<in> set (case filter (on x') ys of [] \<Rightarrow> [(x', None)]
                                     | m # ms \<Rightarrow> map (\<lambda>y. (x', Some y)) (m # ms))
      \<longleftrightarrow> x = x' \<and> ((\<exists>y \<in> set ys. on x y \<and> yo = Some y) \<or> (yo = None \<and> (\<forall>y \<in> set ys. \<not> on x y)))"
  proof -
    fix x'
    show "?thesis x'"
    proof (cases "filter (on x') ys")
      case Nil
      then have "\<forall>y \<in> set ys. \<not> on x' y"
        by (simp add: filter_empty_conv)
      with Nil show ?thesis by auto
    next
      case (Cons m ms)
      then have "set (m # ms) = {y \<in> set ys. on x' y}"
        by (metis set_filter)
      with Cons show ?thesis by auto
    qed
  qed
  show ?thesis
    unfolding leftJoin_def by (auto simp add: one)
qed

lemma fst_set_leftJoin: "fst ` set (leftJoin xs ys on) = set xs"
proof
  show "fst ` set (leftJoin xs ys on) \<subseteq> set xs"
    by (auto simp add: leftJoin_row_iff)
  show "set xs \<subseteq> fst ` set (leftJoin xs ys on)"
  proof
    fix x assume x: "x \<in> set xs"
    show "x \<in> fst ` set (leftJoin xs ys on)"
    proof (cases "\<exists>y \<in> set ys. on x y")
      case True
      then obtain y where "y \<in> set ys" "on x y" by blast
      with x have "(x, Some y) \<in> set (leftJoin xs ys on)"
        by (auto simp add: leftJoin_row_iff)
      then show ?thesis by force
    next
      case False
      with x have "(x, None) \<in> set (leftJoin xs ys on)"
        by (auto simp add: leftJoin_row_iff)
      then show ?thesis by force
    qed
  qed
qed

lemma sorted_orderBy: "sorted_wrt (\<lambda>a b. k a \<le> k b) (orderBy k rows)"
  using sorted_sort_key [of k rows] by (simp add: orderBy_def sorted_wrt_map)

lemma sorted_orderByDesc: "sorted_wrt (\<lambda>a b. k a \<ge> k b) (orderByDesc k rows)"
  using sorted_sort_key [of "\<lambda>r. - k r" rows] by (simp add: orderByDesc_def sorted_wrt_map)

lemma set_orderBy: "set (orderBy k rows) = set rows"
  by (simp add: orderBy_def)

lemma set_orderByDesc: "set (orderByDesc k rows) = set rows"
  by (simp add: orderByDesc_def)


lemma getAllQuests_Some:
  assumes "getDb c = (c1, Some db1)"
  shows "getAllQuests c =
     (c1, map (\<lambda>row.
                 \<lparr>qv_quest = declaredColumns (fst row),
                  qv_authorName = (case snd row of None \<Rightarrow> None | Some u \<Rightarrow> u_name u),
                  qv_authorAvatarUrl = (case snd row of None \<Rightarrow> None | Some u \<Rightarrow> u_avatarUrl u),
                  qv_answerCount = getOrZero (countByKey (map qa_questId (questAnswers db1))) (q_id (fst row))\<rparr>)
           (orderByDesc (\<lambda>row. q_createdAt (fst row))
              (leftJoin (quests db1) (users db1) (\<lambda>q u. q_userId q = u_id u))))"
  by (simp add: getAllQuests_def assms Let_def)

lemma getQuestAnswers_Some:
  assumes "getDb c = (c1, Some db1)"
  shows "getQuestAnswers c questId =
     (c1, map (\<lambda>row.
                 \<lparr>av_answer = fst row,
                  av_authorName = (case snd row of None \<Rightarrow> None | Some u \<Rightarrow> u_name u),
                  av_authorAvatarUrl = (case snd row of None \<Rightarrow> None | Some u \<Rightarrow> u_avatarUrl u)\<rparr>)
           (orderBy (\<lambda>row. qa_createdAt (fst row))
              (filter (\<lambda>row. qa_questId (fst row) = questId)
                 (leftJoin (questAnswers db1) (users db1) (\<lambda>a u. qa_userId a = u_id u)))))"
  by (simp add: getQuestAnswers_def assms Let_def)

lemma getAllQuests_sorted:
  "sorted_wrt (\<lambda>a b. q_createdAt (qv_quest a) \<ge> q_createdAt (qv_quest b)) (snd (getAllQuests c))"
proof (cases "c_db c")
  case None
  then show ?thesis
    by (simp add: getAllQuests_def getDb_None)
next
  case (Some db)
  then obtain c1 db1 where g: "getDb c = (c1, Some db1)"
    by (rule getDb_Some)
  show ?thesis
    using sorted_orderByDesc [of "\<lambda>row. q_createdAt (fst row)"
        "leftJoin (quests db1) (users db1) (\<lambda>q u. q_userId q = u_id u)"]
    by (simp add: getAllQuests_Some [OF g] sorted_wrt_map declaredColumns_fields)
qed

lemma getQuestAnswers_sorted:
  "sorted_wrt (\<lambda>a b. qa_createdAt (av_answer a) \<le> qa_createdAt (av_answer b))
     (snd (getQuestAnswers c questId))"
proof (cases "c_db c")
  case None
  then show ?thesis
    by (simp add: getQuestAnswers_def getDb_None)
next
  case (Some db)
  then obtain c1 db1 where g: "getDb c = (c1, Some db1)"
    by (rule getDb_Some)
  show ?thesis
    using sorted_orderBy [of "\<lambda>row. qa_createdAt (fst row)"
        "filter (\<lambda>row. qa_questId (fst row) = questId)
           (leftJoin (questAnswers db1) (users db1) (\<lambda>a u. qa_userId a = u_id u))"]
    by (simp add: getQuestAnswers_Some [OF g] sorted_wrt_map)
qed

lemma getAllQuests_rows:
  assumes "c_db c = Some db"
  shows "\<exists>db1. c_db (fst (getAllQuests c)) = Some db1
           \<and> qv_quest ` set (snd (getAllQuests c)) = declaredColumns ` set (quests db1)"
proof -
  from assms obtain c1 db1 where g: "getDb c = (c1, Some db1)" and c1: "c_db c1 = Some db1"
    by (rule getDb_Some)
  let ?J = "leftJoin (quests db1) (users db1) (\<lambda>q u. q_userId q = u_id u)"
  have "qv_quest ` set (snd (getAllQuests c)) = (\<lambda>row. declaredColumns (fst row)) ` set ?J"
    by (simp add: getAllQuests_Some [OF g] set_orderByDesc image_image)
  also have "\<dots> = declaredColumns ` fst ` set ?J"
    by (simp add: image_image)
  finally show ?thesis
    by (simp add: getAllQuests_Some [OF g] c1 fst_set_leftJoin)
qed

lemma getQuestAnswers_rows:
  assumes "c_db c = Some db"
  shows "av_answer ` set (snd (getQuestAnswers c questId))
           = {a \<in> set (questAnswers db). qa_questId a = questId}"
proof -
  from assms obtain c1 db1 where g: "getDb c = (c1, Some db1)"
    and eq: "db1 = db\<lparr>quests := quests db1\<rparr>"
    by (rule getDb_Some)
  have qa: "questAnswers db1 = questAnswers db"
    by (subst eq) simp
  let ?J = "leftJoin (questAnswers db1) (users db1) (\<lambda>a u. qa_userId a = u_id u)"
  have "av_answer ` set (snd (getQuestAnswers c questId))
          = fst ` {row \<in> set ?J. qa_questId (fst row) = questId}"
    by (simp add: getQuestAnswers_Some [OF g] set_orderBy image_image)
  also have "\<dots> = {a \<in> fst ` set ?J. qa_questId a = questId}"
    by auto
  finally show ?thesis
    by (simp add: fst_set_leftJoin qa)
qed

lemma getQuestAnswers_author:
  assumes "c_db c = Some db" and "row \<in> set (snd (getQuestAnswers c questId))"
  shows "qa_questId (av_answer row) = questId
       \<and> ((\<exists>u \<in> set (users db). u_id u = qa_userId (av_answer row)
               \<and> av_authorName row = u_name u \<and> av_authorAvatarUrl row = u_avatarUrl u)
          \<or> ((\<forall>u \<in> set (users db). u_id u \<noteq> qa_userId (av_answer row))
               \<and> av_authorName row = None \<and> av_authorAvatarUrl row = None))"
proof -
  from assms(1) obtain c1 db1 where g: "getDb c = (c1, Some db1)"
    and eq: "db1 = db\<lparr>quests := quests db1\<rparr>"
    by (rule getDb_Some)
  have us: "users db1 = users db"
    by (subst eq) simp
  from assms(2) obtain a uo where j: "(a, uo) \<in> set (leftJoin (questAnswers db1) (users db) (\<lambda>a u. qa_userId a = u_id u))"
    and q: "qa_questId a = questId"
    and row: "row = \<lparr>av_answer = a,
                  av_authorName = (case uo of None \<Rightarrow> None | Some u \<Rightarrow> u_name u),
                  av_authorAvatarUrl = (case uo of None \<Rightarrow> None | Some u \<Rightarrow> u_avatarUrl u)\<rparr>"
    by (auto simp add: getQuestAnswers_Some [OF g] set_orderBy us)
  from j show ?thesis
    unfolding leftJoin_row_iff by (auto simp add: row q)
qed

lemma getQuestAnswers_example:
  "snd (getQuestAnswers exampleConn 1) =
     [\<lparr>av_answer = answer2, av_authorName = Some ''Alice'', av_authorAvatarUrl = Some ''a.png''\<rparr>,
      \<lparr>av_answer = answer1, av_authorName = None, av_authorAvatarUrl = None\<rparr>]"
  by (simp add: getQuestAnswers_Some [OF getDb_exampleConn] exampleStore_def leftJoin_def
      orderBy_def answer1_def answer2_def alice_def bob_def)

lemma getAllQuests_example:
  "map (\<lambda>v. q_id (qv_quest v)) (snd (getAllQuests exampleConn)) = [2, 1]"
  by (simp add: getAllQuests_Some [OF getDb_exampleConn] exampleStore_def leftJoin_def
      orderByDesc_def quest1_def quest2_def newQuestRow_def questData_def nowMs_def
      alice_def bob_def declaredColumns_def)

text \<open>
  C7. \<open>getAllQuests\<close> returns the quests of the database (as the lazy status update leaves
  them, each with the columns the table object declares) with the most recent first, and \<open>getQuestAnswers\<close> returns exactly the answers of
  the given quest, the oldest first; every answer row carries the name and the avatar of the
  user whose id is the answer's author, and \<open>None\<close> for both when there is no such user.
\<close>

theorem listings_ordered:
  "sorted_wrt (\<lambda>a b. q_createdAt (qv_quest a) \<ge> q_createdAt (qv_quest b)) (snd (getAllQuests c))
   \<and> sorted_wrt (\<lambda>a b. qa_createdAt (av_answer a) \<le> qa_createdAt (av_answer b))
        (snd (getQuestAnswers c questId))
   \<and> (c_db c = Some db \<longrightarrow>
        (\<exists>db1. c_db (fst (getAllQuests c)) = Some db1
               \<and> qv_quest ` set (snd (getAllQuests c)) = declaredColumns ` set (quests db1))
        \<and> av_answer ` set (snd (getQuestAnswers c questId))
             = {a \<in> set (questAnswers db). qa_questId a = questId}
        \<and> (\<forall>row \<in> set (snd (getQuestAnswers c questId)).
              (\<exists>u \<in> set (users db). u_id u = qa_userId (av_answer row)
                   \<and> av_authorName row = u_name u \<and> av_authorAvatarUrl row = u_avatarUrl u)
              \<or> ((\<forall>u \<in> set (users db). u_id u \<noteq> qa_userId (av_answer row))
                   \<and> av_authorName row = None \<and> av_authorAvatarUrl row = None)))"
  using getAllQuests_sorted [of c] getQuestAnswers_sorted [of c questId]
    getAllQuests_rows [of c db] getQuestAnswers_rows [of c db questId]
    getQuestAnswers_author [of c db _ questId]
  by blast

theorem listings_ordered_witness:
  "c_db exampleConn = Some exampleStore
   \<and> map (\<lambda>v. q_id (qv_quest v)) (snd (getAllQuests exampleConn)) = [2, 1]
   \<and> sorted_wrt (\<lambda>a b. q_createdAt (qv_quest a) \<ge> q_createdAt (qv_quest b))
        (snd (getAllQuests exampleConn))
   \<and> snd (getQuestAnswers exampleConn 1) =
        [\<lparr>av_answer = answer2, av_authorName = Some ''Alice'', av_authorAvatarUrl = Some ''a.png''\<rparr>,
         \<lparr>av_answer = answer1, av_authorName = None, av_authorAvatarUrl = None\<rparr>]
   \<and> sorted_wrt (\<lambda>a b. qa_createdAt (av_answer a) \<le> qa_createdAt (av_answer b))
        (snd (getQuestAnswers exampleConn 1))
   \<and> av_answer ` set (snd (getQuestAnswers exampleConn 1))
        = {a \<in> set (questAnswers exampleStore). qa_questId a = 1}"
proof -
  have h: "c_db exampleConn = Some exampleStore"
    by (simp add: exampleConn_def)
  from listings_ordered [of exampleConn 1 exampleStore] h
    getAllQuests_example getQuestAnswers_example
  show ?thesis
    by blast
qed

section \<open>The id returned by an insert\<close>

lemma orderByDesc_head:
  assumes "rows \<noteq> []"
  obtains r rest where "orderByDesc k rows = r # rest" and "r \<in> set rows"
    and "\<forall>r' \<in> set rows. k r' \<le> k r"
proof -
  from assms have "length (orderByDesc k rows) \<noteq> 0"
    by (simp add: orderByDesc_def)
  then have "orderByDesc k rows \<noteq> []"
    by auto
  then obtain r rest where e: "orderByDesc k rows = r # rest"
    by (cases "orderByDesc k rows") auto
  have s: "set (r # rest) = set rows"
    using set_orderByDesc [of k rows] by (simp add: e)
  have "sorted_wrt (\<lambda>a b. k a \<ge> k b) (r # rest)"
    using sorted_orderByDesc [of k rows] by (simp add: e)
  then have "\<forall>r' \<in> set (r # rest). k r' \<le> k r"
    by auto
  with s e show ?thesis
    by (intro that [of r rest]) auto
qed

lemma insertIdOf_single: "insertIdOf [i] = i"
  by (simp add: insertIdOf_def)

lemma insertIdOf_take1: "insertIdOf (map f (take 1 (r # rest))) = f r"
  by (simp add: insertIdOf_def)

lemma createCaseStudy_returns:
  assumes "createCaseStudy c d now = (c', Inr i)"
  shows "\<exists>db'. c_db c' = Some db'
           \<and> (\<exists>r \<in> set (caseStudies db'). cs_id r = i \<and> cs_userId r = ics_userId d
                 \<and> (\<forall>r' \<in> set (caseStudies db'). cs_userId r' = ics_userId d
                        \<longrightarrow> cs_createdAt r' \<le> cs_createdAt r))"
proof (cases "c_db c")
  case None
  with assms show ?thesis
    by (simp add: createCaseStudy_def getDb_None)
next
  case (Some db)
  then obtain c1 db1 where g: "getDb c = (c1, Some db1)"
    by (rule getDb_Some)
  from assms obtain db' where ins: "insertCaseStudyRow db1 d now = Inr db'"
    and c': "c' = c1\<lparr>c_db := Some db'\<rparr>"
    and i: "i = insertIdOf (map cs_id (latestCaseStudyOfUser db' (ics_userId d)))"
    by (auto simp add: createCaseStudy_def g split: sum.splits)
  let ?mine = "filter (\<lambda>cs. cs_userId cs = ics_userId d) (caseStudies db')"
  from ins have "\<exists>j. newCaseStudyRow j d now \<in> set (caseStudies db')"
    by (auto simp add: insertCaseStudyRow_def Let_def set_insertByRowid split: if_splits)
  then obtain j where j: "newCaseStudyRow j d now \<in> set (caseStudies db')"
    by blast
  have "cs_userId (newCaseStudyRow j d now) = ics_userId d"
    by (simp add: newCaseStudyRow_def)
  with j have "newCaseStudyRow j d now \<in> set ?mine"
    by simp
  then have "?mine \<noteq> []"
    by (metis empty_iff empty_set)
  then obtain r rest where o: "orderByDesc cs_createdAt ?mine = r # rest"
    and r: "r \<in> set ?mine" and m: "\<forall>r' \<in> set ?mine. cs_createdAt r' \<le> cs_createdAt r"
    by (rule orderByDesc_head)
  have "i = cs_id r"
    by (simp add: i latestCaseStudyOfUser_def o insertIdOf_def)
  with r m show ?thesis
    by (auto simp add: c')
qed

lemma createQuest_returns:
  assumes "createQuest c d now = (c', Inr i)"
  shows "\<exists>db'. c_db c' = Some db'
           \<and> (\<exists>r \<in> set (quests db'). q_id r = i \<and> q_userId r = iq_userId d
                 \<and> (\<forall>r' \<in> set (quests db'). q_userId r' = iq_userId d
                        \<longrightarrow> q_createdAt r' \<le> q_createdAt r))"
proof (cases "c_db c")
  case None
  with assms show ?thesis
    by (simp add: createQuest_def getDb_None)
next
  case (Some db)
  then obtain c1 db1 where g: "getDb c = (c1, Some db1)"
    by (rule getDb_Some)
  from assms obtain db' where ins: "insertQuestRow db1 d now = Inr db'"
    and c': "c' = c1\<lparr>c_db := Some db'\<rparr>"
    and i: "i = insertIdOf (map q_id (latestQuestOfUser db' (iq_userId d)))"
    by (auto simp add: createQuest_def g split: sum.splits)
  let ?mine = "filter (\<lambda>q. q_userId q = iq_userId d) (quests db')"
  from ins have "\<exists>j. newQuestRow j d now \<in> set (quests db')"
    by (auto simp add: insertQuestRow_def Let_def set_insertByRowid split: if_splits)
  then obtain j where j: "newQuestRow j d now \<in> set (quests db')"
    by blast
  have "q_userId (newQuestRow j d now) = iq_userId d"
    by (simp add: newQuestRow_def)
  with j have "newQuestRow j d now \<in> set ?mine"
    by simp
  then have "?mine \<noteq> []"
    by (metis empty_iff empty_set)
  then obtain r rest where o: "orderByDesc q_createdAt ?mine = r # rest"
    and r: "r \<in> set ?mine" and m: "\<forall>r' \<in> set ?mine. q_createdAt r' \<le> q_createdAt r"
    by (rule orderByDesc_head)
  have "i = q_id r"
    by (simp add: i latestQuestOfUser_def o insertIdOf_def)
  with r m show ?thesis
    by (auto simp add: c')
qed

lemma case_rows:
  "cs_id case1 = 1" "cs_id case2 = 2" "cs_userId case1 = 1" "cs_userId case2 = 1"
  "cs_createdAt case1 = 5000" "cs_createdAt case2 = 5000"
  by (simp_all add: case1_def case2_def newCaseStudyRow_def caseData_def nowMs_def)

lemma createCaseStudy_example:
  "\<exists>c' db'. createCaseStudy exampleConn caseData 5900 = (c', Inr 1) \<and> c_db c' = Some db'
     \<and> caseStudies db' = [case1, case2, newCaseStudyRow 3 caseData 5900]"
  by (simp add: createCaseStudy_def getDb_exampleConn insertCaseStudyRow_def exampleStore_def
      primaryKeyTaken_def rowidFor_def nextRowid_def userExists_def alice_def bob_def
      latestCaseStudyOfUser_def orderByDesc_def insertIdOf_def case_rows insertByRowid_def
      newCaseStudyRow_def [of 3] caseData_def nowMs_def)

lemma createCaseStudy_example_older:
  "\<exists>c' db'. createCaseStudy exampleConn (caseData\<lparr>ics_createdAt := Some 1\<rparr>) 5900 = (c', Inr 1)
     \<and> c_db c' = Some db'
     \<and> caseStudies db' = [case1, case2, newCaseStudyRow 3 (caseData\<lparr>ics_createdAt := Some 1\<rparr>) 5900]"
  by (simp add: createCaseStudy_def getDb_exampleConn insertCaseStudyRow_def exampleStore_def
      primaryKeyTaken_def rowidFor_def nextRowid_def userExists_def alice_def bob_def
      latestCaseStudyOfUser_def orderByDesc_def insertIdOf_def case_rows insertByRowid_def
      newCaseStudyRow_def [of 3] caseData_def nowMs_def)

lemma createQuest_example:
  "\<exists>c' db'. createQuest exampleConn questData 8500 = (c', Inr 2) \<and> c_db c' = Some db'
     \<and> quests db' = [quest1, quest2\<lparr>q_status := ''unsolved''\<rparr>, newQuestRow 3 questData 8500]"
  by (simp add: createQuest_def getDb_exampleConn insertQuestRow_def exampleStore_def
      primaryKeyTaken_def rowidFor_def nextRowid_def userExists_def alice_def bob_def
      latestQuestOfUser_def orderByDesc_def insertIdOf_def quest1_def quest2_def
      insertByRowid_def newQuestRow_def questData_def nowMs_def)

text \<open>
  C10. What \<open>createCaseStudy\<close> and \<open>createQuest\<close> return is not tied to the row they
  inserted: it is the id of a row of the same user whose \<^verbatim>\<open>createdAt\<close> is greatest among
  that user's rows (which one of several such rows is up to the engine; the model takes the
  first in scan order), and \<^verbatim>\<open>inserted?.id || 0\<close> is 0 when the lookup has no row. In
  the example database the user already has rows created within the same second as the new
  one: the case study inserted with id 3 is answered with id 1, also when it is given an older
  \<^verbatim>\<open>createdAt\<close> (where no order of ties could return 3), and the quest inserted with id 3
  is answered with id 2.
\<close>

theorem insertId_is_latest_of_user:
  "(createCaseStudy c d now = (c', Inr i) \<longrightarrow>
      (\<exists>db'. c_db c' = Some db'
         \<and> (\<exists>r \<in> set (caseStudies db'). cs_id r = i \<and> cs_userId r = ics_userId d
               \<and> (\<forall>r' \<in> set (caseStudies db'). cs_userId r' = ics_userId d
                      \<longrightarrow> cs_createdAt r' \<le> cs_createdAt r))))
   \<and> (createQuest c dq now = (c'', Inr j) \<longrightarrow>
      (\<exists>db'. c_db c'' = Some db'
         \<and> (\<exists>r \<in> set (quests db'). q_id r = j \<and> q_userId r = iq_userId dq
               \<and> (\<forall>r' \<in> set (quests db'). q_userId r' = iq_userId dq
                      \<longrightarrow> q_createdAt r' \<le> q_createdAt r))))
   \<and> insertIdOf [] = 0
   \<and> (\<exists>c' db'. createCaseStudy exampleConn caseData 5900 = (c', Inr 1) \<and> c_db c' = Some db'
         \<and> caseStudies db' = [case1, case2, newCaseStudyRow 3 caseData 5900]
         \<and> cs_id (newCaseStudyRow 3 caseData 5900) = 3
         \<and> cs_createdAt (newCaseStudyRow 3 caseData 5900) = cs_createdAt case1
         \<and> cs_userId (newCaseStudyRow 3 caseData 5900) = cs_userId case1)
   \<and> (\<exists>c' db'. createCaseStudy exampleConn (caseData\<lparr>ics_createdAt := Some 1\<rparr>) 5900 = (c', Inr 1)
         \<and> c_db c' = Some db'
         \<and> caseStudies db' =
             [case1, case2, newCaseStudyRow 3 (caseData\<lparr>ics_createdAt := Some 1\<rparr>) 5900])
   \<and> (\<exists>c' db'. createQuest exampleConn questData 8500 = (c', Inr 2) \<and> c_db c' = Some db'
         \<and> quests db' = [quest1, quest2\<lparr>q_status := ''unsolved''\<rparr>, newQuestRow 3 questData 8500]
         \<and> q_id (newQuestRow 3 questData 8500) = 3
         \<and> q_createdAt (newQuestRow 3 questData 8500) = q_createdAt quest2
         \<and> q_userId (newQuestRow 3 questData 8500) = q_userId quest2)"
proof -
  have a: "cs_id (newCaseStudyRow 3 caseData 5900) = 3"
    "cs_createdAt (newCaseStudyRow 3 caseData 5900) = cs_createdAt case1"
    "cs_userId (newCaseStudyRow 3 caseData 5900) = cs_userId case1"
    by (simp_all add: newCaseStudyRow_def caseData_def case1_def nowMs_def)
  have b: "q_id (newQuestRow 3 questData 8500) = 3"
    "q_createdAt (newQuestRow 3 questData 8500) = q_createdAt quest2"
    "q_userId (newQuestRow 3 questData 8500) = q_userId quest2"
    by (simp_all add: newQuestRow_def questData_def quest2_def nowMs_def)
  have z: "insertIdOf [] = 0"
    by (simp add: insertIdOf_def)
  from createCaseStudy_returns [of c d now c' i] createQuest_returns [of c dq now c'' j]
    createCaseStudy_example createCaseStudy_example_older createQuest_example a b z
  show ?thesis
    by blast
qed

theorem insertId_is_latest_of_user_witness:
  "\<exists>c' db'. createCaseStudy exampleConn caseData 5900 = (c', Inr 1) \<and> c_db c' = Some db'
     \<and> (\<exists>r \<in> set (caseStudies db'). cs_id r = 1 \<and> cs_userId r = ics_userId caseData
           \<and> (\<forall>r' \<in> set (caseStudies db'). cs_userId r' = ics_userId caseData
                  \<longrightarrow> cs_createdAt r' \<le> cs_createdAt r))"
proof -
  from createCaseStudy_example obtain c' where
    e: "createCaseStudy exampleConn caseData 5900 = (c', Inr 1)"
    by blast
  from insertId_is_latest_of_user [of exampleConn caseData 5900 c' 1, THEN conjunct1] e
  have "\<exists>db'. c_db c' = Some db'
     \<and> (\<exists>r \<in> set (caseStudies db'). cs_id r = 1 \<and> cs_userId r = ics_userId caseData
           \<and> (\<forall>r' \<in> set (caseStudies db'). cs_userId r' = ics_userId caseData
                  \<longrightarrow> cs_createdAt r' \<le> cs_createdAt r))"
    by (rule mp)
  with e show ?thesis
    by blast
qed

section \<open>Upserting a user\<close>

lemma upsertUser_Some:
  assumes "getDb c = (c1, Some db1)" and "iu_openId user \<noteq> []"
  shows "upsertUser owners c user now =
     (c1\<lparr>c_db := Some (insertOnConflictDoUpdate db1 (upsertValues owners user now)
                          (upsertUpdateSet owners user now) now)\<rparr>, Inr ())"
  using assms by (simp add: upsertUser_def)

lemma upsert_role_fields:
  "uv_role (upsertValues owners user now) =
     (case iu_role user of Some r \<Rightarrow> Some r
      | None \<Rightarrow> if iu_openId user \<in> set owners then Some RoleAdmin else None)"
  "us_role (upsertUpdateSet owners user now) =
     (case iu_role user of Some r \<Rightarrow> Some r
      | None \<Rightarrow> if iu_openId user \<in> set owners then Some RoleAdmin else None)"
  "uv_openId (upsertValues owners user now) = iu_openId user"
  by (simp_all add: upsertValues_def upsertUpdateSet_def Let_def)

lemma upsert_rows:
  "users (insertOnConflictDoUpdate db v s now) =
     (if \<exists>u \<in> set (users db). u_openId u = uv_openId v
      then map (\<lambda>u. if u_openId u = uv_openId v then applyUserUpdate s u else u) (users db)
      else users db @ [newUserRow (nextRowid (seq_users db) (map u_id (users db))) v now])"
  by (simp add: insertOnConflictDoUpdate_def Let_def)

lemma applyUserUpdate_fields:
  "u_openId (applyUserUpdate s u) = u_openId u"
  "u_role (applyUserUpdate s u) = (case us_role s of None \<Rightarrow> u_role u | Some r \<Rightarrow> r)"
  by (simp_all add: applyUserUpdate_def)

lemma newUserRow_fields:
  "u_openId (newUserRow i v now) = uv_openId v"
  "u_role (newUserRow i v now) = (case uv_role v of None \<Rightarrow> RoleUser | Some r \<Rightarrow> r)"
  by (simp_all add: newUserRow_def)

lemma upsert_explicit_example:
  "storedRole (fst (upsertUser [''alice''] exampleConn (signIn ''alice'' (Some RoleUser)) 9000)) ''alice''
     = Some RoleUser"
  by (simp add: upsertUser_def signIn_def getDb_exampleConn storedRole_def
      insertOnConflictDoUpdate_def exampleStore_def alice_def bob_def
      upsertValues_def upsertUpdateSet_def applyUserUpdate_def Let_def)

lemma upsert_existing_example:
  "storedRole (fst (upsertUser [] exampleConn (signIn ''bob'' None) 9000)) ''bob'' = Some RoleAdmin"
  by (simp add: upsertUser_def signIn_def getDb_exampleConn storedRole_def
      insertOnConflictDoUpdate_def exampleStore_def alice_def bob_def
      upsertValues_def upsertUpdateSet_def applyUserUpdate_def Let_def)

lemma upsert_owner_example:
  "storedRole (fst (upsertUser [''alice''] exampleConn (signIn ''alice'' None) 9000)) ''alice''
     = Some RoleAdmin"
  by (simp add: upsertUser_def signIn_def getDb_exampleConn storedRole_def
      insertOnConflictDoUpdate_def exampleStore_def alice_def bob_def
      upsertValues_def upsertUpdateSet_def applyUserUpdate_def Let_def)

lemma upsert_new_example:
  "storedRole (fst (upsertUser [''alice''] exampleConn (signIn ''carol'' None) 9000)) ''carol''
     = Some RoleUser"
  by (simp add: upsertUser_def signIn_def getDb_exampleConn storedRole_def
      insertOnConflictDoUpdate_def exampleStore_def alice_def bob_def
      upsertValues_def upsertUpdateSet_def applyUserUpdate_def newUserRow_def Let_def)

text \<open>
  C9, as the code has it. When no role is supplied, an identity whose openId is in the owner
  allow-list is stored with role admin, a newly inserted identity outside the list gets the
  column default \<open>RoleUser\<close>, and an identity outside the list that is already stored keeps
  the role it has (\<^verbatim>\<open>updateSet\<close> then holds no role). A role that is supplied is stored
  as given, whether or not the openId is in the allow-list.
\<close>

theorem upsertUser_role:
  assumes "c_db c = Some db" and "iu_openId user \<noteq> []"
  shows "\<exists>c' db'. upsertUser owners c user now = (c', Inr ()) \<and> c_db c' = Some db'
     \<and> (\<exists>u \<in> set (users db'). u_openId u = iu_openId user)
     \<and> (\<forall>r. iu_role user = Some r \<longrightarrow>
           (\<forall>u \<in> set (users db'). u_openId u = iu_openId user \<longrightarrow> u_role u = r))
     \<and> (iu_role user = None \<and> iu_openId user \<in> set owners \<longrightarrow>
           (\<forall>u \<in> set (users db'). u_openId u = iu_openId user \<longrightarrow> u_role u = RoleAdmin))
     \<and> (iu_role user = None \<and> iu_openId user \<notin> set owners \<longrightarrow>
           (if \<exists>u \<in> set (users db). u_openId u = iu_openId user
            then map u_role (users db') = map u_role (users db)
            else \<exists>u. users db' = users db @ [u] \<and> u_openId u = iu_openId user
                      \<and> u_role u = RoleUser))"
proof -
  from assms(1) obtain c1 db1 where g: "getDb c = (c1, Some db1)"
    and eq: "db1 = db\<lparr>quests := quests db1\<rparr>"
    by (rule getDb_Some)
  have us: "users db1 = users db"
    by (subst eq) simp
  let ?v = "upsertValues owners user now" and ?s = "upsertUpdateSet owners user now"
  let ?db' = "insertOnConflictDoUpdate db1 ?v ?s now"
  have res: "upsertUser owners c user now = (c1\<lparr>c_db := Some ?db'\<rparr>, Inr ())"
    by (rule upsertUser_Some [OF g assms(2)])
  have rows: "users ?db' =
     (if \<exists>u \<in> set (users db). u_openId u = iu_openId user
      then map (\<lambda>u. if u_openId u = iu_openId user then applyUserUpdate ?s u else u) (users db)
      else users db @ [newUserRow (nextRowid (seq_users db1) (map u_id (users db))) ?v now])"
    by (simp add: upsert_rows us upsert_role_fields)
  have ids: "(\<exists>u \<in> set (users db). u_openId u = iu_openId user) \<Longrightarrow>
      map u_openId (users ?db') = map u_openId (users db)"
    by (simp add: rows applyUserUpdate_fields)
  have 1: "\<exists>u \<in> set (users ?db'). u_openId u = iu_openId user"
  proof (cases "\<exists>u \<in> set (users db). u_openId u = iu_openId user")
    case True
    then have "iu_openId user \<in> set (map u_openId (users db))"
      by (metis image_eqI set_map)
    with ids [OF True] have "iu_openId user \<in> set (map u_openId (users ?db'))"
      by simp
    then show ?thesis
      by auto
  next
    case False
    then show ?thesis
      by (simp add: rows newUserRow_fields upsert_role_fields)
  qed
  have 2: "\<forall>r. iu_role user = Some r \<longrightarrow>
             (\<forall>u \<in> set (users ?db'). u_openId u = iu_openId user \<longrightarrow> u_role u = r)"
    by (auto simp add: rows applyUserUpdate_fields newUserRow_fields upsert_role_fields)
  have 3: "iu_role user = None \<and> iu_openId user \<in> set owners \<longrightarrow>
             (\<forall>u \<in> set (users ?db'). u_openId u = iu_openId user \<longrightarrow> u_role u = RoleAdmin)"
    by (auto simp add: rows applyUserUpdate_fields newUserRow_fields upsert_role_fields)
  have 4: "iu_role user = None \<and> iu_openId user \<notin> set owners \<longrightarrow>
           (if \<exists>u \<in> set (users db). u_openId u = iu_openId user
            then map u_role (users ?db') = map u_role (users db)
            else \<exists>u. users ?db' = users db @ [u] \<and> u_openId u = iu_openId user
                      \<and> u_role u = RoleUser)"
    by (auto simp add: rows applyUserUpdate_fields newUserRow_fields upsert_role_fields)
  from 1 2 3 4 show ?thesis
    unfolding res by simp
qed

theorem upsertUser_role_witness:
  "c_db exampleConn = Some exampleStore \<and> iu_openId (signIn ''alice'' None) \<noteq> []
   \<and> (\<exists>c' db'. upsertUser [''alice''] exampleConn (signIn ''alice'' None) 9000 = (c', Inr ())
         \<and> c_db c' = Some db'
         \<and> (\<exists>u \<in> set (users db'). u_openId u = ''alice'')
         \<and> (\<forall>u \<in> set (users db'). u_openId u = ''alice'' \<longrightarrow> u_role u = RoleAdmin))"
proof -
  have h: "c_db exampleConn = Some exampleStore"
    by (simp add: exampleConn_def)
  have o: "iu_openId (signIn ''alice'' None) \<noteq> []" "iu_openId (signIn ''alice'' None) = ''alice''"
    "iu_role (signIn ''alice'' None) = None"
    by (simp_all add: signIn_def)
  from upsertUser_role [OF h o(1), of "[''alice'']" 9000] h o show ?thesis
    by auto
qed

text \<open>
  The claim as the spec words it fails twice in the example database: with the allow-list
  \<open>[''alice'']\<close> an upsert of alice that supplies the role user stores user, not admin; and
  with an empty allow-list an upsert of bob without a role leaves bob the admin he is, not
  the default user.
\<close>

theorem upsertUser_role_counterexample:
  "''alice'' \<in> set [''alice'']
   \<and> storedRole (fst (upsertUser [''alice''] exampleConn (signIn ''alice'' (Some RoleUser)) 9000))
        ''alice'' = Some RoleUser
   \<and> ''bob'' \<notin> set []
   \<and> iu_role (signIn ''bob'' None) = None
   \<and> storedRole (fst (upsertUser [] exampleConn (signIn ''bob'' None) 9000)) ''bob''
        = Some RoleAdmin"
  using upsert_explicit_example upsert_existing_example
  by (simp add: signIn_def)

section \<open>The legacy status on the read path\<close>

lemma normalize_closed: "normalizeQuestStatus (Some ''closed'') = StUnsolved"
  by (simp add: normalizeQuestStatus_def)

lemma normalize_unsolved: "normalizeQuestStatus (Some ''unsolved'') = StUnsolved"
  by (simp add: normalizeQuestStatus_def)

lemma normalize_unsolvedForClosed:
  "normalizeQuestStatus (Some (q_status (qv_quest (unsolvedForClosed v))))
     = normalizeQuestStatus (Some (q_status (qv_quest v)))"
  by (simp add: unsolvedForClosed_def normalize_closed normalize_unsolved)

lemma matchesSearch_unsolvedForClosed:
  "matchesSearch trimLower includesLower sq (unsolvedForClosed v) = matchesSearch trimLower includesLower sq v"
  by (simp add: unsolvedForClosed_def matchesSearch_def)

lemma listBadge_unsolvedForClosed: "listBadge (unsolvedForClosed v) = listBadge v"
  by (simp add: listBadge_def normalize_unsolvedForClosed)

lemma questCounts_fold:
  "fold (\<lambda>quest counts. countStatus (normalizeQuestStatus (Some (q_status (qv_quest quest)))) counts)
     (map unsolvedForClosed qs) init
   = fold (\<lambda>quest counts. countStatus (normalizeQuestStatus (Some (q_status (qv_quest quest)))) counts)
     qs init"
  by (induction qs arbitrary: init) (simp_all add: normalize_unsolvedForClosed)

lemma questCounts_unsolvedForClosed: "questCounts (map unsolvedForClosed qs) = questCounts qs"
  by (simp add: questCounts_def questCounts_fold)

lemma filteredQuests_unsolvedForClosed:
  "filteredQuests trimLower includesLower flt (map unsolvedForClosed qs) sq
     = map unsolvedForClosed (filteredQuests trimLower includesLower flt qs sq)"
  by (simp add: filteredQuests_def filter_map comp_def normalize_unsolvedForClosed
      matchesSearch_unsolvedForClosed Let_def)

lemma selected_closed_unsolved:
  "selectedQuestStatus (Some (q\<lparr>q_status := ''closed''\<rparr>))
     = selectedQuestStatus (Some (q\<lparr>q_status := ''unsolved''\<rparr>))"
  "isSelectedQuestClosed (Some (q\<lparr>q_status := ''closed''\<rparr>))
     = isSelectedQuestClosed (Some (q\<lparr>q_status := ''unsolved''\<rparr>))"
  by (simp_all add: selectedQuestStatus_def isSelectedQuestClosed_def normalize_closed
      normalize_unsolved)

lemma legacyStatusUpdate_no_closed: "\<forall>q \<in> set (legacyStatusUpdate qs). q_status q \<noteq> ''closed''"
  by (auto simp add: legacyStatusUpdate_def)

lemma first_getDb_rewrites_closed:
  assumes "c_db c = Some db" and "\<not> questTablesEnsured c" and "bindingHasPrepare c"
  shows "\<exists>c1 db1. getDb c = (c1, Some db1) \<and> quests db1 = legacyStatusUpdate (quests db)"
  using assms
  by (cases "avatarColumnEnsured c"; cases "reportsTableEnsured c")
     (simp_all add: getDb_def ensureQuestTables_def ensureReportsTable_def
        ensureAvatarColumn_def)

text \<open>
  C6, as the code has it. \<open>normalizeQuestStatus\<close> reads \<^verbatim>\<open>closed\<close> as unsolved, and every
  consumer of the four-state quest page that renders or filters a status goes through it: the
  status and the closed flag of the selected quest, the badge of a list row, the counts and
  the filter give the same result for a list of quests and for that list with every stored
  \<^verbatim>\<open>closed\<close> replaced by \<^verbatim>\<open>unsolved\<close>. On the server, the first \<open>getDb\<close> of a
  process whose binding can prepare statements rewrites the stored value itself.
\<close>

theorem closed_reads_as_unsolved:
  "normalizeQuestStatus (Some ''closed'') = normalizeQuestStatus (Some ''unsolved'')
   \<and> selectedQuestStatus (Some (q\<lparr>q_status := ''closed''\<rparr>))
        = selectedQuestStatus (Some (q\<lparr>q_status := ''unsolved''\<rparr>))
   \<and> isSelectedQuestClosed (Some (q\<lparr>q_status := ''closed''\<rparr>))
        = isSelectedQuestClosed (Some (q\<lparr>q_status := ''unsolved''\<rparr>))
   \<and> listBadge (unsolvedForClosed v) = listBadge v
   \<and> questCounts (map unsolvedForClosed qs) = questCounts qs
   \<and> filteredQuests trimLower includesLower flt (map unsolvedForClosed qs) searchQuery
        = map unsolvedForClosed (filteredQuests trimLower includesLower flt qs searchQuery)
   \<and> (c_db c = Some db \<and> \<not> questTablesEnsured c \<and> bindingHasPrepare c \<longrightarrow>
        (\<exists>c1 db1. getDb c = (c1, Some db1) \<and> quests db1 = legacyStatusUpdate (quests db)
                  \<and> (\<forall>quest \<in> set (quests db1). q_status quest \<noteq> ''closed'')))"
  using selected_closed_unsolved [of q] listBadge_unsolvedForClosed [of v]
    questCounts_unsolvedForClosed [of qs]
    filteredQuests_unsolvedForClosed [of trimLower includesLower flt qs searchQuery]
    first_getDb_rewrites_closed [of c db] legacyStatusUpdate_no_closed [of "quests db"]
  by (auto simp add: normalize_closed normalize_unsolved)

theorem closed_reads_as_unsolved_witness:
  "c_db exampleConn = Some exampleStore \<and> \<not> questTablesEnsured exampleConn
   \<and> bindingHasPrepare exampleConn
   \<and> (\<exists>quest \<in> set (quests exampleStore). q_status quest = ''closed'')
   \<and> (\<exists>c1 db1. getDb exampleConn = (c1, Some db1)
         \<and> (\<forall>quest \<in> set (quests db1). q_status quest \<noteq> ''closed''))
   \<and> isSelectedQuestClosed (Some quest2)
        = isSelectedQuestClosed (Some (quest2\<lparr>q_status := ''unsolved''\<rparr>))"
proof -
  have h: "c_db exampleConn = Some exampleStore" "\<not> questTablesEnsured exampleConn"
    "bindingHasPrepare exampleConn"
    by (simp_all add: exampleConn_def)
  have q: "quest2\<lparr>q_status := ''closed''\<rparr> = quest2" "q_status quest2 = ''closed''"
    by (simp_all add: quest2_def)
  have e: "\<exists>quest \<in> set (quests exampleStore). q_status quest = ''closed''"
    by (simp add: exampleStore_def q)
  from closed_reads_as_unsolved [of quest2
      "\<lparr>qv_quest = quest2, qv_authorName = None, qv_authorAvatarUrl = None, qv_answerCount = 0\<rparr>"
      "[]" "\<lambda>s. s" "\<lambda>t s. False" FilterAll "[]" exampleConn exampleStore]
  have inst: "isSelectedQuestClosed (Some (quest2\<lparr>q_status := ''closed''\<rparr>))
          = isSelectedQuestClosed (Some (quest2\<lparr>q_status := ''unsolved''\<rparr>))
        \<and> (c_db exampleConn = Some exampleStore \<and> \<not> questTablesEnsured exampleConn
             \<and> bindingHasPrepare exampleConn \<longrightarrow>
            (\<exists>c1 db1. getDb exampleConn = (c1, Some db1)
               \<and> quests db1 = legacyStatusUpdate (quests exampleStore)
               \<and> (\<forall>quest \<in> set (quests db1). q_status quest \<noteq> ''closed'')))"
    by blast
  from inst have a: "isSelectedQuestClosed (Some quest2)
          = isSelectedQuestClosed (Some (quest2\<lparr>q_status := ''unsolved''\<rparr>))"
    by (simp add: q)
  from inst h have b: "\<exists>c1 db1. getDb exampleConn = (c1, Some db1)
           \<and> (\<forall>quest \<in> set (quests db1). q_status quest \<noteq> ''closed'')"
    by blast
  from a b h e show ?thesis
    by blast
qed

text \<open>
  The two-state page \<^verbatim>\<open>client/src/pages/Quest.tsx\<close> is a consumer that does not: it takes
  a quest stored as \<^verbatim>\<open>closed\<close> for closed and the same quest stored as
  \<^verbatim>\<open>unsolved\<close> for open.
\<close>

theorem closed_reads_as_unsolved_counterexample:
  "q_status quest2 = ''closed''
   \<and> isSelectedQuestClosed_QuestTsx (Some quest2)
   \<and> \<not> isSelectedQuestClosed_QuestTsx (Some (quest2\<lparr>q_status := ''unsolved''\<rparr>))"
  by (simp add: isSelectedQuestClosed_QuestTsx_def quest2_def)

section \<open>Reporting a case study\<close>

lemma insertReportRow_fresh:
  assumes "ir_id d = None" and "reportCount db (ir_userId d) (ir_caseStudyId d) = 0"
    and "userExists db (ir_userId d)" and "caseStudyExists db (ir_caseStudyId d)"
  shows "\<exists>db' row. insertReportRow db d now = Inr db' \<and> reports db' = reports db @ [row]
           \<and> r_userId row = ir_userId d \<and> r_caseStudyId row = ir_caseStudyId d
           \<and> reportCount db' (ir_userId d) (ir_caseStudyId d) = 1
           \<and> caseStudies db' = caseStudies db"
proof -
  from assms(2) have none: "\<not> (\<exists>r \<in> set (reports db). r_userId r = ir_userId d
        \<and> r_caseStudyId r = ir_caseStudyId d)"
    by (auto simp add: reportCount_def filter_empty_conv)
  then have f: "filter (\<lambda>r. r_userId r = ir_userId d \<and> r_caseStudyId r = ir_caseStudyId d)
        (reports db) = []"
    by (auto simp add: filter_empty_conv)
  let ?i = "nextRowid (seq_reports db) (map r_id (reports db))"
  let ?row = "\<lparr>r_id = ?i, r_userId = ir_userId d, r_caseStudyId = ir_caseStudyId d,
                r_createdAt = (case ir_createdAt d of None \<Rightarrow> nowMs now | Some t \<Rightarrow> t)\<rparr>"
  have "\<forall>r \<in> set (reports db). r_id r < r_id ?row"
    using nextRowid_greater [of "map r_id (reports db)" "seq_reports db"] by simp
  then have last: "insertByRowid r_id ?row (reports db) = reports db @ [?row]"
    by (rule insertByRowid_last)
  show ?thesis
    using assms(1,3,4) none
    by (simp add: insertReportRow_def primaryKeyTaken_def rowidFor_def Let_def reportCount_def
        f last)
qed

lemma insertReportRow_duplicate:
  assumes "reportCount db (ir_userId d) (ir_caseStudyId d) > 0"
  shows "insertReportRow db d now = Inl D1ConstraintError"
proof -
  from assms have "filter (\<lambda>r. r_userId r = ir_userId d \<and> r_caseStudyId r = ir_caseStudyId d)
        (reports db) \<noteq> []"
    by (auto simp add: reportCount_def)
  then have "\<exists>r \<in> set (reports db). r_userId r = ir_userId d \<and> r_caseStudyId r = ir_caseStudyId d"
    by (auto simp add: filter_empty_conv)
  then show ?thesis
    by (simp add: insertReportRow_def)
qed

lemma createReport_Some:
  assumes "getDb c = (c1, Some db1)"
  shows "createReport c d now =
     (case insertReportRow db1 d now of
        Inr db' \<Rightarrow> (c1\<lparr>c_db := Some db'\<rparr>, Inr True)
      | Inl e \<Rightarrow> (c1, Inr False))"
  by (simp add: createReport_def assms split: sum.splits)

lemma getCaseStudyById_Some:
  assumes "getDb c = (c1, Some db1)"
  shows "getCaseStudyById c i = (c1, find (\<lambda>cs. cs_id cs = i) (caseStudies db1))"
  by (simp add: getCaseStudyById_def assms)

lemma store_after_getDb:
  assumes "db1 = db\<lparr>quests := qs\<rparr>"
  shows "users db1 = users db" "caseStudies db1 = caseStudies db" "favorites db1 = favorites db"
    "reports db1 = reports db" "questAnswers db1 = questAnswers db"
    "foreignKeys db1 = foreignKeys db" "userExists db1 = userExists db"
    "caseStudyExists db1 = caseStudyExists db" "reportCount db1 = reportCount db"
    "favoriteCount db1 = favoriteCount db" "favoritePairs db1 = favoritePairs db"
    "seq_favorites db1 = seq_favorites db" "seq_reports db1 = seq_reports db"
  by (simp_all add: assms userExists_def caseStudyExists_def reportCount_def favoriteCount_def
      favoritePairs_def fun_eq_iff)

lemma handleReportCase_own:
  "handleReportCase mutateAsync s isAuthenticated (Some ownerUserId) caseId ownerUserId =
     (s, if isAuthenticated then ToastError ''You cannot report your own post.''
         else RedirectToLogin)"
  by (simp add: handleReportCase_def)

lemma find_caseStudy:
  assumes "find (\<lambda>cs. cs_id cs = i) (caseStudies db) = Some cs"
  shows "caseStudyExists db i"
proof -
  from assms have "cs \<in> set (caseStudies db)" "cs_id cs = i"
    by (auto simp add: find_Some_iff in_set_conv_nth)
  then show ?thesis
    by (auto simp add: caseStudyExists_def)
qed

text \<open>
  \<open>createReport\<close> itself asks nothing about the author: it inserts once and turns the
  refusal of the second insert into \<^verbatim>\<open>created: false\<close>.
\<close>

lemma createReport_twice:
  assumes "c_db c = Some db" and "ir_id d = None"
    and "reportCount db (ir_userId d) (ir_caseStudyId d) = 0"
    and "userExists db (ir_userId d)" and "caseStudyExists db (ir_caseStudyId d)"
  shows "\<exists>c1 db1 row. createReport c d now1 = (c1, Inr True) \<and> c_db c1 = Some db1
            \<and> ensured c1
            \<and> reports db1 = reports db @ [row]
            \<and> caseStudies db1 = caseStudies db
            \<and> r_userId row = ir_userId d \<and> r_caseStudyId row = ir_caseStudyId d
            \<and> reportCount db1 (ir_userId d) (ir_caseStudyId d) = 1
            \<and> createReport c1 d now2 = (c1, Inr False)"
proof -
  from assms(1) obtain c0 db0 where g: "getDb c = (c0, Some db0)" and e: "ensured c0"
    and eq: "db0 = db\<lparr>quests := quests db0\<rparr>"
    by (rule getDb_Some)
  note same = store_after_getDb [OF eq]
  from insertReportRow_fresh [of d db0 now1] assms(2-5)
  obtain db1 row where ins: "insertReportRow db0 d now1 = Inr db1"
    and rows: "reports db1 = reports db @ [row]"
    and row: "r_userId row = ir_userId d" "r_caseStudyId row = ir_caseStudyId d"
    and cnt: "reportCount db1 (ir_userId d) (ir_caseStudyId d) = 1"
    and cs: "caseStudies db1 = caseStudies db"
    by (auto simp add: same)
  let ?c1 = "c0\<lparr>c_db := Some db1\<rparr>"
  have first: "createReport c d now1 = (?c1, Inr True)"
    by (simp add: createReport_Some [OF g] ins)
  have e1: "ensured ?c1"
    by (simp add: ensured_c_db_update e)
  have g1: "getDb ?c1 = (?c1, Some db1)"
    by (rule getDb_ensured [OF e1]) simp
  have dup: "insertReportRow db1 d now2 = Inl D1ConstraintError"
    by (rule insertReportRow_duplicate) (simp add: cnt)
  have second: "createReport ?c1 d now2 = (?c1, Inr False)"
    by (simp add: createReport_Some [OF g1] dup)
  from first second rows row cnt cs e1 show ?thesis
    by (intro exI [of _ ?c1] exI [of _ db1] exI [of _ row]) simp
qed

lemma report_first_then_again:
  assumes db: "c_db c = Some db"
    and f: "find (\<lambda>cs. cs_id cs = caseStudyId) (caseStudies db) = Some caseStudy"
    and other: "cs_userId caseStudy \<noteq> userId"
    and u: "userExists db userId"
    and none: "reportCount db userId caseStudyId = 0"
  shows "\<exists>c1 db1 row.
           caseStudies_report c userId caseStudyId now1 = (c1, Inr \<lparr>alreadyReported = False\<rparr>)
           \<and> c_db c1 = Some db1
           \<and> reports db1 = reports db @ [row]
           \<and> r_userId row = userId \<and> r_caseStudyId row = caseStudyId
           \<and> reportCount db1 userId caseStudyId = 1
           \<and> caseStudies_report c1 userId caseStudyId now2
                = (c1, Inr \<lparr>alreadyReported = True\<rparr>)"
proof -
  let ?d = "\<lparr>ir_id = None, ir_userId = userId, ir_caseStudyId = caseStudyId,
             ir_createdAt = None\<rparr>"
  from db obtain c0 db0 where g: "getDb c = (c0, Some db0)" and e: "ensured c0"
    and d0: "c_db c0 = Some db0" and eq: "db0 = db\<lparr>quests := quests db0\<rparr>"
    by (rule getDb_Some)
  note same = store_after_getDb [OF eq]
  have f0: "find (\<lambda>cs. cs_id cs = caseStudyId) (caseStudies db0) = Some caseStudy"
    using f by (simp add: same)
  have k: "caseStudyExists db0 caseStudyId"
    by (rule find_caseStudy [OF f0])
  from createReport_twice [of c0 db0 ?d now1 now2] d0 u none k
  obtain c1 db1 row where cr1: "createReport c0 ?d now1 = (c1, Inr True)"
    and d1: "c_db c1 = Some db1" and e1: "ensured c1"
    and rows: "reports db1 = reports db @ [row]"
    and cs1: "caseStudies db1 = caseStudies db"
    and row: "r_userId row = userId" "r_caseStudyId row = caseStudyId"
    and cnt: "reportCount db1 userId caseStudyId = 1"
    and cr2: "createReport c1 ?d now2 = (c1, Inr False)"
    by (auto simp add: same)
  have first: "caseStudies_report c userId caseStudyId now1
                 = (c1, Inr \<lparr>alreadyReported = False\<rparr>)"
    using other by (simp add: caseStudies_report_def getCaseStudyById_Some [OF g] f0 cr1)
  have g1: "getDb c1 = (c1, Some db1)"
    by (rule getDb_ensured [OF e1 d1])
  have f1: "find (\<lambda>cs. cs_id cs = caseStudyId) (caseStudies db1) = Some caseStudy"
    using f by (simp add: cs1)
  have second: "caseStudies_report c1 userId caseStudyId now2
                  = (c1, Inr \<lparr>alreadyReported = True\<rparr>)"
    using other by (simp add: caseStudies_report_def getCaseStudyById_Some [OF g1] f1 cr2)
  from first second d1 rows row cnt show ?thesis
    by (intro exI [of _ c1] exI [of _ db1] exI [of _ row]) simp
qed

lemma report_own:
  assumes db: "c_db c = Some db"
    and f: "find (\<lambda>cs. cs_id cs = caseStudyId) (caseStudies db) = Some caseStudy"
    and own: "cs_userId caseStudy = userId"
  shows "\<exists>c' db' rej. caseStudies_report c userId caseStudyId now = (c', Inl (Rejected rej))
           \<and> c_db c' = Some db' \<and> reports db' = reports db"
proof -
  from db obtain c0 db0 where g: "getDb c = (c0, Some db0)"
    and d0: "c_db c0 = Some db0" and eq: "db0 = db\<lparr>quests := quests db0\<rparr>"
    by (rule getDb_Some)
  note same = store_after_getDb [OF eq]
  have f0: "find (\<lambda>cs. cs_id cs = caseStudyId) (caseStudies db0) = Some caseStudy"
    using f by (simp add: same)
  have "caseStudies_report c userId caseStudyId now = (c0, Inl (Rejected ValidationFailure))"
    using own by (simp add: caseStudies_report_def getCaseStudyById_Some [OF g] f0)
  with d0 same(4) show ?thesis
    by (intro exI [of _ c0] exI [of _ db0] exI [of _ ValidationFailure]) simp
qed

text \<open>
  C4. In the report procedure of the RPC layer, a user who reports a case study of another
  author for the first time (the user exists where foreign keys are enforced) gets
  \<^verbatim>\<open>alreadyReported: false\<close>, and the reports table grows by exactly one row, the one of
  this user and case study; the same report again gets \<^verbatim>\<open>alreadyReported: true\<close>, which is
  \<open>createReport\<close> answering \<^verbatim>\<open>created: false\<close>, raises nothing and leaves the whole state
  as it is. A report by the author of the case study is rejected in every state, and the
  reports table stays as it is. On the page, \<open>handleReportCase\<close> does not even call the
  mutation when the user is the owner it was given: the server state is untouched and the user
  is told that the own post cannot be reported (or is sent to the login page when not
  authenticated).
\<close>

theorem report_once:
  "(c_db c = Some db
      \<and> find (\<lambda>cs. cs_id cs = caseStudyId) (caseStudies db) = Some caseStudy
      \<and> cs_userId caseStudy \<noteq> userId
      \<and> userExists db userId
      \<and> reportCount db userId caseStudyId = 0
    \<longrightarrow> (\<exists>c1 db1 row.
           caseStudies_report c userId caseStudyId now1 = (c1, Inr \<lparr>alreadyReported = False\<rparr>)
           \<and> c_db c1 = Some db1
           \<and> reports db1 = reports db @ [row]
           \<and> r_userId row = userId \<and> r_caseStudyId row = caseStudyId
           \<and> reportCount db1 userId caseStudyId = 1
           \<and> caseStudies_report c1 userId caseStudyId now2
                = (c1, Inr \<lparr>alreadyReported = True\<rparr>)))
   \<and> (c_db c = Some db
        \<and> find (\<lambda>cs. cs_id cs = caseStudyId) (caseStudies db) = Some caseStudy
        \<and> cs_userId caseStudy = userId
      \<longrightarrow> (\<exists>c' db' rej. caseStudies_report c userId caseStudyId now1 = (c', Inl (Rejected rej))
             \<and> c_db c' = Some db' \<and> reports db' = reports db))
   \<and> handleReportCase mutateAsync s isAuthenticated (Some ownerUserId) caseId ownerUserId =
       (s, if isAuthenticated then ToastError ''You cannot report your own post.''
           else RedirectToLogin)"
  using report_first_then_again [of c db caseStudyId caseStudy userId now1 now2]
    report_own [of c db caseStudyId caseStudy userId now1]
    handleReportCase_own [of mutateAsync s isAuthenticated ownerUserId caseId]
  by blast

theorem report_once_witness:
  "c_db exampleConn = Some exampleStore
   \<and> find (\<lambda>cs. cs_id cs = 1) (caseStudies exampleStore) = Some case1
   \<and> cs_userId case1 = 1
   \<and> userExists exampleStore 2
   \<and> reportCount exampleStore 2 1 = 0
   \<and> (\<exists>c1 db1 row.
         caseStudies_report exampleConn 2 1 9000 = (c1, Inr \<lparr>alreadyReported = False\<rparr>)
         \<and> c_db c1 = Some db1
         \<and> reports db1 = reports exampleStore @ [row]
         \<and> r_userId row = 2 \<and> r_caseStudyId row = 1
         \<and> reportCount db1 2 1 = 1
         \<and> caseStudies_report c1 2 1 9500 = (c1, Inr \<lparr>alreadyReported = True\<rparr>))
   \<and> (\<exists>c' db' rej. caseStudies_report exampleConn 1 1 9000 = (c', Inl (Rejected rej))
         \<and> c_db c' = Some db' \<and> reports db' = reports exampleStore)
   \<and> handleReportCase (\<lambda>c i. caseStudies_report c 1 i 9000) exampleConn True (Some 1) 1
        (cs_userId case1)
        = (exampleConn, ToastError ''You cannot report your own post.'')"
proof -
  have h: "c_db exampleConn = Some exampleStore"
    by (simp add: exampleConn_def)
  have k: "cs_id case1 = 1" "cs_userId case1 = 1"
    by (simp_all add: case1_def newCaseStudyRow_def caseData_def)
  have f: "find (\<lambda>cs. cs_id cs = 1) (caseStudies exampleStore) = Some case1"
    by (simp add: exampleStore_def k)
  have n: "reportCount exampleStore 2 1 = 0"
    by (simp add: reportCount_def exampleStore_def)
  have u: "userExists exampleStore 2"
    by (simp add: userExists_def exampleStore_def bob_def)
  have o: "cs_userId case1 \<noteq> 2"
    by (simp add: k)
  from report_once [of exampleConn exampleStore 1 case1 2 9000 9500, THEN conjunct1] h f o u n
  have first: "\<exists>c1 db1 row.
         caseStudies_report exampleConn 2 1 9000 = (c1, Inr \<lparr>alreadyReported = False\<rparr>)
         \<and> c_db c1 = Some db1
         \<and> reports db1 = reports exampleStore @ [row]
         \<and> r_userId row = 2 \<and> r_caseStudyId row = 1
         \<and> reportCount db1 2 1 = 1
         \<and> caseStudies_report c1 2 1 9500 = (c1, Inr \<lparr>alreadyReported = True\<rparr>)"
    by blast
  from report_once [of exampleConn exampleStore 1 case1 1 9000 9500,
      THEN conjunct2, THEN conjunct1] h f k
  have own: "\<exists>c' db' rej. caseStudies_report exampleConn 1 1 9000 = (c', Inl (Rejected rej))
         \<and> c_db c' = Some db' \<and> reports db' = reports exampleStore"
    by blast
  from report_once [of _ _ _ _ _ _ _ "\<lambda>c i. caseStudies_report c 1 i 9000" exampleConn True 1 1,
      THEN conjunct2, THEN conjunct2]
  have page: "handleReportCase (\<lambda>c i. caseStudies_report c 1 i 9000) exampleConn True (Some 1) 1
        (cs_userId case1)
        = (exampleConn, ToastError ''You cannot report your own post.'')"
    by (simp add: k)
  from h f k u n first own page show ?thesis
    by blast
qed

section \<open>Toggling a favorite\<close>

lemma isFavorite_Some:
  assumes "getDb c = (c1, Some db1)"
  shows "isFavorite c u cs = (c1, favoriteCount db1 u cs > 0)"
  by (simp add: isFavorite_def assms favoriteCount_def Let_def)

lemma removeFavorite_Some:
  assumes "getDb c = (c1, Some db1)"
  shows "removeFavorite c u cs =
     (c1\<lparr>c_db := Some (db1\<lparr>favorites :=
          filter (\<lambda>f. \<not> (f_userId f = u \<and> f_caseStudyId f = cs)) (favorites db1)\<rparr>)\<rparr>, Inr True)"
  by (simp add: removeFavorite_def assms)

lemma addFavorite_Some:
  assumes "getDb c = (c1, Some db1)"
  shows "addFavorite c u cs now =
     (case insertFavoriteRow db1 u cs now of
        Inr db' \<Rightarrow> (c1\<lparr>c_db := Some db'\<rparr>, Inr True)
      | Inl e \<Rightarrow> (c1, Inr False))"
  by (simp add: addFavorite_def assms split: sum.splits)

lemma favoriteCount_zero_iff:
  "favoriteCount db u cs = 0 \<longleftrightarrow> \<not> (\<exists>f \<in> set (favorites db). f_userId f = u \<and> f_caseStudyId f = cs)"
  by (auto simp add: favoriteCount_def filter_empty_conv)

lemma insertFavoriteRow_cases:
  assumes "favoriteCount db u cs = 0"
  shows "if userExists db u \<and> caseStudyExists db cs
         then \<exists>db' row. insertFavoriteRow db u cs now = Inr db'
                \<and> favorites db' = favorites db @ [row] \<and> f_userId row = u \<and> f_caseStudyId row = cs
                \<and> users db' = users db \<and> caseStudies db' = caseStudies db
                \<and> foreignKeys db' = foreignKeys db
         else insertFavoriteRow db u cs now = Inl D1ConstraintError"
proof -
  from assms have "\<not> (\<exists>f \<in> set (favorites db). f_userId f = u \<and> f_caseStudyId f = cs)"
    by (simp add: favoriteCount_zero_iff)
  then show ?thesis
    by (auto simp add: insertFavoriteRow_def Let_def)
qed

lemma toggle_step:
  assumes "c_db c = Some db"
  shows "\<exists>c' db'. caseStudies_toggleFavorite c u cs now = (c', Inr ()) \<and> c_db c' = Some db'
    \<and> users db' = users db \<and> caseStudies db' = caseStudies db \<and> foreignKeys db' = foreignKeys db
    \<and> (if favoriteCount db u cs > 0
        then favorites db' = filter (\<lambda>f. \<not> (f_userId f = u \<and> f_caseStudyId f = cs)) (favorites db)
        else if userExists db u \<and> caseStudyExists db cs
        then (\<exists>row. favorites db' = favorites db @ [row] \<and> f_userId row = u \<and> f_caseStudyId row = cs)
        else favorites db' = favorites db)"
proof -
  from assms obtain c0 db0 where g: "getDb c = (c0, Some db0)" and c0: "c_db c0 = Some db0"
    and e: "ensured c0" and eq: "db0 = db\<lparr>quests := quests db0\<rparr>"
    by (rule getDb_Some)
  note same = store_after_getDb [OF eq]
  have g0: "getDb c0 = (c0, Some db0)"
    by (rule getDb_ensured [OF e c0])
  show ?thesis
  proof (cases "favoriteCount db u cs > 0")
    case True
    then show ?thesis
      by (simp add: caseStudies_toggleFavorite_def isFavorite_Some [OF g] same
          removeFavorite_Some [OF g0])
  next
    case False
    then have z: "favoriteCount db0 u cs = 0"
      by (simp add: same)
    show ?thesis
    proof (cases "userExists db u \<and> caseStudyExists db cs")
      case True
      with insertFavoriteRow_cases [OF z, of now] obtain db' row where
        "insertFavoriteRow db0 u cs now = Inr db'" "favorites db' = favorites db @ [row]"
        "f_userId row = u" "f_caseStudyId row = cs" "users db' = users db"
        "caseStudies db' = caseStudies db" "foreignKeys db' = foreignKeys db"
        by (auto simp add: same)
      with False True show ?thesis
        by (simp add: caseStudies_toggleFavorite_def isFavorite_Some [OF g] same
          addFavorite_Some [OF g0])
    next
      case no: False
      with insertFavoriteRow_cases [OF z, of now]
      have "insertFavoriteRow db0 u cs now = Inl D1ConstraintError"
        by (simp add: same)
      with False no show ?thesis
        by (simp add: caseStudies_toggleFavorite_def isFavorite_Some [OF g] same
          addFavorite_Some [OF g0] c0)
    qed
  qed
qed


lemma filter_pair_facts:
  fixes fs :: "favorite_row list"
  shows "filter (\<lambda>f. f_userId f = u \<and> f_caseStudyId f = cs)
           (filter (\<lambda>f. \<not> (f_userId f = u \<and> f_caseStudyId f = cs)) fs) = []"
    and "set (map (\<lambda>f. (f_userId f, f_caseStudyId f))
           (filter (\<lambda>f. \<not> (f_userId f = u \<and> f_caseStudyId f = cs)) fs))
           = set (map (\<lambda>f. (f_userId f, f_caseStudyId f)) fs) - {(u, cs)}"
  by (auto simp add: filter_empty_conv)

lemma filter_absent:
  fixes fs :: "favorite_row list"
  assumes "filter (\<lambda>f. f_userId f = u \<and> f_caseStudyId f = cs) fs = []"
  shows "filter (\<lambda>f. \<not> (f_userId f = u \<and> f_caseStudyId f = cs)) fs = fs"
  using assms by (induction fs) (auto split: if_splits)

lemma toggle_effect:
  assumes "c_db c = Some db"
  shows "\<exists>c' db'. caseStudies_toggleFavorite c u cs now = (c', Inr ()) \<and> c_db c' = Some db'
    \<and> userExists db' u = userExists db u \<and> caseStudyExists db' cs = caseStudyExists db cs
    \<and> favoriteCount db' u cs \<le> 1
    \<and> (favoriteCount db u cs > 0 \<longrightarrow>
          favoriteCount db' u cs = 0 \<and> favoritePairs db' = favoritePairs db - {(u, cs)})
    \<and> (favoriteCount db u cs = 0 \<and> userExists db u \<and> caseStudyExists db cs \<longrightarrow>
          favoriteCount db' u cs = 1 \<and> favoritePairs db' = insert (u, cs) (favoritePairs db)
          \<and> filter (\<lambda>f. \<not> (f_userId f = u \<and> f_caseStudyId f = cs)) (favorites db') = favorites db)
    \<and> (favoriteCount db u cs = 0 \<and> \<not> (userExists db u \<and> caseStudyExists db cs) \<longrightarrow>
          favorites db' = favorites db)"
proof -
  from toggle_step [OF assms, of u cs now] obtain c' db' where
    t: "caseStudies_toggleFavorite c u cs now = (c', Inr ())" and c': "c_db c' = Some db'"
    and u: "users db' = users db" and k: "caseStudies db' = caseStudies db"
    and fk: "foreignKeys db' = foreignKeys db"
    and f: "if favoriteCount db u cs > 0
        then favorites db' = filter (\<lambda>f. \<not> (f_userId f = u \<and> f_caseStudyId f = cs)) (favorites db)
        else if userExists db u \<and> caseStudyExists db cs
        then (\<exists>row. favorites db' = favorites db @ [row] \<and> f_userId row = u \<and> f_caseStudyId row = cs)
        else favorites db' = favorites db"
    by blast
  have ex: "userExists db' u = userExists db u" "caseStudyExists db' cs = caseStudyExists db cs"
    by (simp_all add: userExists_def caseStudyExists_def u k fk)
  have a: "favoriteCount db u cs > 0 \<longrightarrow>
          favoriteCount db' u cs = 0 \<and> favoritePairs db' = favoritePairs db - {(u, cs)}"
    using f filter_pair_facts [of u cs "favorites db"]
    by (simp add: favoriteCount_def favoritePairs_def)
  have b: "favoriteCount db u cs = 0 \<and> userExists db u \<and> caseStudyExists db cs \<longrightarrow>
          favoriteCount db' u cs = 1 \<and> favoritePairs db' = insert (u, cs) (favoritePairs db)
          \<and> filter (\<lambda>f. \<not> (f_userId f = u \<and> f_caseStudyId f = cs)) (favorites db') = favorites db"
    using f filter_absent [of u cs "favorites db"]
    by (auto simp add: favoriteCount_def favoritePairs_def)
  have d: "favoriteCount db u cs = 0 \<and> \<not> (userExists db u \<and> caseStudyExists db cs) \<longrightarrow>
          favorites db' = favorites db"
    using f by auto
  have le: "favoriteCount db' u cs \<le> 1"
  proof (cases "favoriteCount db u cs > 0")
    case True
    with a show ?thesis by simp
  next
    case False
    show ?thesis
    proof (cases "userExists db u \<and> caseStudyExists db cs")
      case True
      with False b show ?thesis by simp
    next
      case no: False
      with False d have "favorites db' = favorites db" by simp
      with False show ?thesis by (simp add: favoriteCount_def)
    qed
  qed
  from t c' ex a b d le show ?thesis
    by (intro exI [of _ c'] exI [of _ db']) simp
qed

text \<open>
  C3. Two toggles of the same user on the same case study, on an initialised connection, both
  succeed and bring the favorites relation back: if the pair had no favorite row, the
  favorites table after the second toggle is the table before the first; and whenever the
  toggled pair can be inserted again (it had no row, or the user and the case study exist
  where foreign keys are enforced, which the schema guarantees for a pair that has a row), the
  set of favorited pairs is the same as before. After each of the two toggles the pair has at
  most one favorite row.
\<close>

theorem toggleFavorite_twice:
  assumes "c_db c = Some db"
    and "caseStudies_toggleFavorite c u cs now1 = (c1, r1)"
    and "caseStudies_toggleFavorite c1 u cs now2 = (c2, r2)"
  shows "r1 = Inr () \<and> r2 = Inr ()
    \<and> (\<exists>db1 db2. c_db c1 = Some db1 \<and> c_db c2 = Some db2
          \<and> (favoriteCount db u cs = 0 \<longrightarrow> favorites db2 = favorites db)
          \<and> (favoriteCount db u cs = 0 \<or> (userExists db u \<and> caseStudyExists db cs)
               \<longrightarrow> favoritePairs db2 = favoritePairs db)
          \<and> favoriteCount db1 u cs \<le> 1 \<and> favoriteCount db2 u cs \<le> 1)"
proof -
  from toggle_effect [OF assms(1), of u cs now1] assms(2) obtain db1 where
    r1: "r1 = Inr ()" and c1: "c_db c1 = Some db1"
    and ex1: "userExists db1 u = userExists db u" "caseStudyExists db1 cs = caseStudyExists db cs"
    and le1: "favoriteCount db1 u cs \<le> 1"
    and a1: "favoriteCount db u cs > 0 \<longrightarrow>
          favoriteCount db1 u cs = 0 \<and> favoritePairs db1 = favoritePairs db - {(u, cs)}"
    and b1: "favoriteCount db u cs = 0 \<and> userExists db u \<and> caseStudyExists db cs \<longrightarrow>
          favoriteCount db1 u cs = 1 \<and> favoritePairs db1 = insert (u, cs) (favoritePairs db)
          \<and> filter (\<lambda>f. \<not> (f_userId f = u \<and> f_caseStudyId f = cs)) (favorites db1) = favorites db"
    and d1: "favoriteCount db u cs = 0 \<and> \<not> (userExists db u \<and> caseStudyExists db cs) \<longrightarrow>
          favorites db1 = favorites db"
    by auto
  from toggle_step [OF c1, of u cs now2] assms(3) obtain db2 where
    r2: "r2 = Inr ()" and c2: "c_db c2 = Some db2"
    and f2: "if favoriteCount db1 u cs > 0
        then favorites db2 = filter (\<lambda>f. \<not> (f_userId f = u \<and> f_caseStudyId f = cs)) (favorites db1)
        else if userExists db1 u \<and> caseStudyExists db1 cs
        then (\<exists>row. favorites db2 = favorites db1 @ [row] \<and> f_userId row = u \<and> f_caseStudyId row = cs)
        else favorites db2 = favorites db1"
    by auto
  from toggle_effect [OF c1, of u cs now2] assms(3) c2 have le2: "favoriteCount db2 u cs \<le> 1"
    and a2: "favoriteCount db1 u cs > 0 \<longrightarrow> favoritePairs db2 = favoritePairs db1 - {(u, cs)}"
    and b2: "favoriteCount db1 u cs = 0 \<and> userExists db1 u \<and> caseStudyExists db1 cs \<longrightarrow>
          favoritePairs db2 = insert (u, cs) (favoritePairs db1)"
    by auto
  have pairs_absent: "favoriteCount db u cs = 0 \<Longrightarrow> (u, cs) \<notin> favoritePairs db"
    by (auto simp add: favoriteCount_zero_iff favoritePairs_def)
  have pairs_present: "favoriteCount db u cs > 0 \<Longrightarrow> (u, cs) \<in> favoritePairs db"
    using favoriteCount_zero_iff [of db u cs] by (force simp add: favoritePairs_def)
  have again: "favoriteCount db u cs = 0 \<longrightarrow> favorites db2 = favorites db"
  proof
    assume z: "favoriteCount db u cs = 0"
    show "favorites db2 = favorites db"
    proof (cases "userExists db u \<and> caseStudyExists db cs")
      case True
      with z b1 f2 show ?thesis by simp
    next
      case False
      with z d1 have same: "favorites db1 = favorites db" by simp
      then have "favoriteCount db1 u cs = 0"
        using z by (simp add: favoriteCount_def)
      with f2 False ex1 same show ?thesis by simp
    qed
  qed
  have rel: "favoriteCount db u cs = 0 \<or> (userExists db u \<and> caseStudyExists db cs)
               \<longrightarrow> favoritePairs db2 = favoritePairs db"
  proof
    assume h: "favoriteCount db u cs = 0 \<or> (userExists db u \<and> caseStudyExists db cs)"
    show "favoritePairs db2 = favoritePairs db"
    proof (cases "favoriteCount db u cs = 0")
      case True
      with again show ?thesis by (simp add: favoritePairs_def)
    next
      case False
      with h have ok: "userExists db u \<and> caseStudyExists db cs" by simp
      from False have p: "favoriteCount db u cs > 0" by simp
      with a1 have "favoriteCount db1 u cs = 0" "favoritePairs db1 = favoritePairs db - {(u, cs)}"
        by simp_all
      with b2 ok ex1 have "favoritePairs db2 = insert (u, cs) (favoritePairs db - {(u, cs)})"
        by simp
      with pairs_present [OF p] show ?thesis by auto
    qed
  qed
  from r1 r2 c1 c2 again rel le1 le2 show ?thesis
    by simp
qed

theorem toggleFavorite_twice_witness:
  "c_db exampleConn = Some exampleStore
   \<and> favoriteCount exampleStore 2 1 = 1
   \<and> userExists exampleStore 2 \<and> caseStudyExists exampleStore 1
   \<and> (\<exists>c1 c2 db1 db2.
         caseStudies_toggleFavorite exampleConn 2 1 9000 = (c1, Inr ())
         \<and> caseStudies_toggleFavorite c1 2 1 9500 = (c2, Inr ())
         \<and> c_db c1 = Some db1 \<and> c_db c2 = Some db2
         \<and> favoritePairs db2 = favoritePairs exampleStore
         \<and> favoriteCount db1 2 1 \<le> 1 \<and> favoriteCount db2 2 1 \<le> 1)"
proof -
  have h: "c_db exampleConn = Some exampleStore"
    by (simp add: exampleConn_def)
  have n: "favoriteCount exampleStore 2 1 = 1"
    by (simp add: favoriteCount_def exampleStore_def)
  have u: "userExists exampleStore 2"
    by (simp add: userExists_def exampleStore_def bob_def)
  have k: "caseStudyExists exampleStore 1"
    by (simp add: caseStudyExists_def exampleStore_def case1_def newCaseStudyRow_def)
  obtain c1 r1 where t1: "caseStudies_toggleFavorite exampleConn 2 1 9000 = (c1, r1)"
    by (cases "caseStudies_toggleFavorite exampleConn 2 1 9000") auto
  obtain c2 r2 where t2: "caseStudies_toggleFavorite c1 2 1 9500 = (c2, r2)"
    by (cases "caseStudies_toggleFavorite c1 2 1 9500") auto
  from toggleFavorite_twice [OF h t1 t2] u k obtain db1 db2 where
    "r1 = Inr ()" "r2 = Inr ()" "c_db c1 = Some db1" "c_db c2 = Some db2"
    "favoritePairs db2 = favoritePairs exampleStore"
    "favoriteCount db1 2 1 \<le> 1" "favoriteCount db2 2 1 \<le> 1"
    by auto
  with t1 t2 h n u k show ?thesis
    by blast
qed

section \<open>Closing a quest\<close>

lemma leftJoin_filter:
  "filter (\<lambda>row. P (fst row)) (leftJoin xs ys on) = leftJoin (filter P xs) ys on"
proof (induction xs)
  case Nil
  show ?case by (simp add: leftJoin_def)
next
  case (Cons x xs)
  have one: "filter (\<lambda>row. P (fst row))
               (case filter (on x) ys of [] \<Rightarrow> [(x, None)]
                | m # ms \<Rightarrow> map (\<lambda>y. (x, Some y)) (m # ms))
             = (if P x then (case filter (on x) ys of [] \<Rightarrow> [(x, None)]
                | m # ms \<Rightarrow> map (\<lambda>y. (x, Some y)) (m # ms)) else [])"
    by (cases "filter (on x) ys") (auto simp add: filter_map comp_def)
  from Cons show ?case
    by (simp add: leftJoin_def one)
qed

lemma leftJoin_first:
  "map fst (take 1 (leftJoin xs ys on)) = take 1 xs"
proof (cases xs)
  case Nil
  then show ?thesis by (simp add: leftJoin_def)
next
  case (Cons x rest)
  then show ?thesis
    by (cases "filter (on x) ys") (simp_all add: leftJoin_def)
qed

lemma find_as_filter: "find P xs = (case filter P xs of [] \<Rightarrow> None | x # _ \<Rightarrow> Some x)"
  by (induction xs) auto

lemma getQuestById_quest:
  assumes "getDb c = (c1, Some db1)"
  shows "fst (getQuestById c i) = c1"
    and "map_option qd_quest (snd (getQuestById c i))
           = map_option declaredColumns (find (\<lambda>q. q_id q = i) (quests db1))"
proof -
  let ?J = "leftJoin (filter (\<lambda>q. q_id q = i) (quests db1)) (users db1) (\<lambda>q u. q_userId q = u_id u)"
  have f: "filter (\<lambda>row. q_id (fst row) = i)
             (leftJoin (quests db1) (users db1) (\<lambda>q u. q_userId q = u_id u)) = ?J"
    by (rule leftJoin_filter)
  show "fst (getQuestById c i) = c1"
    by (simp add: getQuestById_def assms split: list.splits)
  have t: "map fst (take 1 ?J) = take 1 (filter (\<lambda>q. q_id q = i) (quests db1))"
    by (rule leftJoin_first)
  show "map_option qd_quest (snd (getQuestById c i))
          = map_option declaredColumns (find (\<lambda>q. q_id q = i) (quests db1))"
  proof (cases "take 1 ?J")
    case Nil
    with t have "filter (\<lambda>q. q_id q = i) (quests db1) = []"
      by (cases "filter (\<lambda>q. q_id q = i) (quests db1)") simp_all
    with Nil show ?thesis
      by (simp add: getQuestById_def assms f find_as_filter)
  next
    case (Cons row rest)
    with t obtain q qs where "filter (\<lambda>q. q_id q = i) (quests db1) = q # qs" "fst row = q"
      by (cases "filter (\<lambda>q. q_id q = i) (quests db1)") auto
    with Cons show ?thesis
      by (simp add: getQuestById_def assms f find_as_filter)
  qed
qed

lemma getQuestAnswerById_Some:
  assumes "getDb c = (c1, Some db1)"
  shows "getQuestAnswerById c i = (c1, find (\<lambda>a. qa_id a = i) (questAnswers db1))"
  by (simp add: getQuestAnswerById_def assms)

lemma closeQuest_Some:
  assumes "getDb c = (c1, Some db1)"
  shows "closeQuest c i d now =
     (c1\<lparr>c_db := Some (db1\<lparr>quests :=
         map (\<lambda>q. if q_id q = i then closeSet d now q else q) (quests db1)\<rparr>)\<rparr>, Inr True)"
  by (simp add: closeQuest_def assms)

lemma getQuestAnswers_empty_iff:
  assumes "getDb c = (c1, Some db1)"
  shows "fst (getQuestAnswers c i) = c1"
    and "length (snd (getQuestAnswers c i)) = 0
           \<longleftrightarrow> (\<forall>a \<in> set (questAnswers db1). qa_questId a \<noteq> i)"
proof -
  show "fst (getQuestAnswers c i) = c1"
    by (simp add: getQuestAnswers_Some [OF assms])
  let ?F = "filter (\<lambda>a. qa_questId a = i) (questAnswers db1)"
  let ?J = "leftJoin ?F (users db1) (\<lambda>a u. qa_userId a = u_id u)"
  have e: "?J = [] \<longleftrightarrow> ?F = []"
    using fst_set_leftJoin [of ?F "users db1" "\<lambda>a u. qa_userId a = u_id u"]
    by (metis image_is_empty set_empty)
  have "length (snd (getQuestAnswers c i)) = 0 \<longleftrightarrow> ?J = []"
    using leftJoin_filter [of "\<lambda>a. qa_questId a = i" "questAnswers db1" "users db1"
        "\<lambda>a u. qa_userId a = u_id u"]
    by (simp add: getQuestAnswers_Some [OF assms] orderBy_def)
  also have "\<dots> \<longleftrightarrow> (\<forall>a \<in> set (questAnswers db1). qa_questId a \<noteq> i)"
    by (simp add: e filter_empty_conv)
  finally show "length (snd (getQuestAnswers c i)) = 0
           \<longleftrightarrow> (\<forall>a \<in> set (questAnswers db1). qa_questId a \<noteq> i)" .
qed


lemma closeWith_Some:
  assumes "getDb c = (c1, Some db1)"
  shows "closeWith c i d now =
     (c1\<lparr>c_db := Some (db1\<lparr>quests :=
         map (\<lambda>q. if q_id q = i then closeSet d now q else q) (quests db1)\<rparr>)\<rparr>,
      Inr \<lparr>alreadyClosed = False\<rparr>)"
  by (simp add: closeWith_def closeQuest_Some [OF assms])

lemma closeAsFinished_ensured:
  assumes g0: "getDb c0 = (c0, Some db0)"
  shows "closeAsFinished c0 input now =
    (if \<forall>a \<in> set (questAnswers db0). qa_questId a \<noteq> cr_questId input
     then (c0, Inl (Rejected ValidationFailure))
     else case cr_solvedAnswerId input of
       None \<Rightarrow> (c0, Inl (Rejected ValidationFailure))
     | Some aid \<Rightarrow>
         (case find (\<lambda>a. qa_id a = aid) (questAnswers db0) of
            None \<Rightarrow> (c0, Inl (Rejected ValidationFailure))
          | Some a \<Rightarrow>
              if qa_questId a \<noteq> cr_questId input then (c0, Inl (Rejected ValidationFailure))
              else (c0\<lparr>c_db := Some (db0\<lparr>quests :=
                      map (\<lambda>q. if q_id q = cr_questId input
                                then closeSet \<lparr>cd_status = Finished, cd_solvedAnswerId = Some aid,
                                               cd_solverUserId = Some (qa_userId a)\<rparr> now q
                                else q) (quests db0)\<rparr>)\<rparr>,
                    Inr \<lparr>alreadyClosed = False\<rparr>)))"
proof -
  obtain c2 answers where ga: "getQuestAnswers c0 (cr_questId input) = (c2, answers)"
    by (cases "getQuestAnswers c0 (cr_questId input)") auto
  from getQuestAnswers_empty_iff [OF g0, of "cr_questId input"] ga
  have c2: "c2 = c0"
    and em: "answers = [] \<longleftrightarrow> (\<forall>a \<in> set (questAnswers db0). qa_questId a \<noteq> cr_questId input)"
    by simp_all
  show ?thesis
    unfolding closeAsFinished_def ga c2
    by (simp add: em getQuestAnswerById_Some [OF g0] closeWith_Some [OF g0]
        split: option.splits)
qed

lemma quests_close_ensured:
  assumes e: "ensured c0" and d: "c_db c0 = Some db0"
  shows "quests_close c0 caller input now =
    (case find (\<lambda>q. q_id q = cr_questId input) (quests db0) of
       None \<Rightarrow> (c0, Inl (Rejected NotFound))
     | Some q \<Rightarrow>
        if q_userId q \<noteq> caller then (c0, Inl (Rejected AuthorizationDenied))
        else if q_status q \<noteq> ''open'' then (c0, Inr \<lparr>alreadyClosed = True\<rparr>)
        else if cr_outcome input = Finished then closeAsFinished c0 input now
        else (c0\<lparr>c_db := Some (db0\<lparr>quests :=
                 map (\<lambda>q. if q_id q = cr_questId input
                           then closeSet \<lparr>cd_status = cr_outcome input, cd_solvedAnswerId = None,
                                          cd_solverUserId = None\<rparr> now q
                           else q) (quests db0)\<rparr>)\<rparr>,
              Inr \<lparr>alreadyClosed = False\<rparr>))"
proof -
  have g0: "getDb c0 = (c0, Some db0)"
    by (rule getDb_ensured [OF e d])
  obtain c1 found where gq: "getQuestById c0 (cr_questId input) = (c1, found)"
    by (cases "getQuestById c0 (cr_questId input)") auto
  from getQuestById_quest [OF g0, of "cr_questId input"] gq
  have c1: "c1 = c0"
    and f: "map_option qd_quest found
              = map_option declaredColumns (find (\<lambda>q. q_id q = cr_questId input) (quests db0))"
    by simp_all
  show ?thesis
  proof (cases found)
    case None
    with f have "find (\<lambda>q. q_id q = cr_questId input) (quests db0) = None"
      by simp
    with None show ?thesis
      by (simp add: quests_close_def gq c1)
  next
    case (Some quest)
    with f obtain q where q: "find (\<lambda>q. q_id q = cr_questId input) (quests db0) = Some q"
      and p: "qd_quest quest = declaredColumns q"
      by (cases "find (\<lambda>q. q_id q = cr_questId input) (quests db0)") simp_all
    from Some q show ?thesis
      by (simp add: quests_close_def gq c1 closeWith_Some [OF g0] p declaredColumns_fields)
  qed
qed

lemma quests_close_getDb:
  assumes "getDb c = (c0, Some db0)" and "ensured c0" and "c_db c0 = Some db0"
  shows "quests_close c caller input now = quests_close c0 caller input now"
proof -
  have g0: "getDb c0 = (c0, Some db0)"
    by (rule getDb_ensured [OF assms(2,3)])
  have "getQuestById c (cr_questId input) = getQuestById c0 (cr_questId input)"
    by (simp add: getQuestById_def assms(1) g0)
  then show ?thesis
    by (simp add: quests_close_def)
qed


lemma find_legacyStatusUpdate:
  assumes "find (\<lambda>q. q_id q = i) qs = Some q" and "q_status q \<noteq> ''closed''"
  shows "find (\<lambda>q. q_id q = i) (legacyStatusUpdate qs) = Some q"
  using assms by (induction qs) (auto simp add: legacyStatusUpdate_def split: if_splits)

lemma find_closeSet:
  assumes "find (\<lambda>q. q_id q = i) qs = Some q"
  shows "find (\<lambda>q. q_id q = i) (map (\<lambda>q. if q_id q = i then closeSet d now q else q) qs)
           = Some (closeSet d now q)"
  using assms by (induction qs) (auto simp add: closeSet_def split: if_splits)

lemma getDb_quest:
  assumes "c_db c = Some db" and "find (\<lambda>q. q_id q = i) (quests db) = Some q"
    and "q_status q \<noteq> ''closed''"
  obtains c0 db0 where "getDb c = (c0, Some db0)" and "ensured c0" and "c_db c0 = Some db0"
    and "find (\<lambda>q. q_id q = i) (quests db0) = Some q"
    and "questAnswers db0 = questAnswers db"
proof -
  from assms(1) obtain c0 db0 where g: "getDb c = (c0, Some db0)" and c0: "c_db c0 = Some db0"
    and e: "ensured c0" and eq: "db0 = db\<lparr>quests := quests db0\<rparr>"
    and qs: "quests db0 = quests db \<or> quests db0 = legacyStatusUpdate (quests db)"
    by (rule getDb_Some)
  from qs assms(2,3) have f: "find (\<lambda>q. q_id q = i) (quests db0) = Some q"
    by (auto simp add: find_legacyStatusUpdate)
  have qa: "questAnswers db0 = questAnswers db"
    by (rule store_after_getDb [OF eq])
  from g e c0 f qa show ?thesis
    by (rule that)
qed

lemma quests_close_success:
  assumes e: "ensured c0" and d0: "c_db c0 = Some db0"
    and r: "quests_close c0 caller input now = (c1, Inr \<lparr>alreadyClosed = False\<rparr>)"
  shows "\<exists>q d. find (\<lambda>q. q_id q = cr_questId input) (quests db0) = Some q
           \<and> q_userId q = caller \<and> q_status q = ''open'' \<and> cd_status d = cr_outcome input
           \<and> c1 = c0\<lparr>c_db := Some (db0\<lparr>quests :=
                      map (\<lambda>q. if q_id q = cr_questId input then closeSet d now q else q)
                        (quests db0)\<rparr>)\<rparr>
           \<and> (cr_outcome input = Finished \<longrightarrow>
                 (\<exists>a \<in> set (questAnswers db0). qa_questId a = cr_questId input
                    \<and> cr_solvedAnswerId input = Some (qa_id a)
                    \<and> cd_solvedAnswerId d = Some (qa_id a)
                    \<and> cd_solverUserId d = Some (qa_userId a)))"
proof -
  have g0: "getDb c0 = (c0, Some db0)"
    by (rule getDb_ensured [OF e d0])
  note qc = quests_close_ensured [OF e d0, of caller input now]
  from r qc obtain q where f: "find (\<lambda>q. q_id q = cr_questId input) (quests db0) = Some q"
    by (cases "find (\<lambda>q. q_id q = cr_questId input) (quests db0)") auto
  from r qc f have au: "q_userId q = caller" and op: "q_status q = ''open''"
    by (auto split: if_splits)
  show ?thesis
  proof (cases "cr_outcome input = Finished")
    case False
    with r qc f au op show ?thesis
      by (intro exI [of _ q] exI [of _ "\<lparr>cd_status = cr_outcome input, cd_solvedAnswerId = None,
                                          cd_solverUserId = None\<rparr>"]) auto
  next
    case True
    with r qc f au op
    have cf: "closeAsFinished c0 input now = (c1, Inr \<lparr>alreadyClosed = False\<rparr>)"
      by simp
    note caf = closeAsFinished_ensured [OF g0, of input now]
    from cf caf obtain aid where s: "cr_solvedAnswerId input = Some aid"
      by (cases "cr_solvedAnswerId input") (auto split: if_splits)
    from cf caf s obtain a where fa: "find (\<lambda>a. qa_id a = aid) (questAnswers db0) = Some a"
      by (cases "find (\<lambda>a. qa_id a = aid) (questAnswers db0)") (auto split: if_splits)
    from fa have am: "a \<in> set (questAnswers db0)" and ai: "qa_id a = aid"
      by (auto simp add: find_Some_iff in_set_conv_nth)
    from cf caf s fa have aq: "qa_questId a = cr_questId input"
      and c1: "c1 = c0\<lparr>c_db := Some (db0\<lparr>quests :=
                      map (\<lambda>q. if q_id q = cr_questId input
                                then closeSet \<lparr>cd_status = Finished, cd_solvedAnswerId = Some aid,
                                               cd_solverUserId = Some (qa_userId a)\<rparr> now q
                                else q) (quests db0)\<rparr>)\<rparr>"
      by (auto split: if_splits)
    from f au op True c1 am ai aq s show ?thesis
      by (intro exI [of _ q] exI [of _ "\<lparr>cd_status = Finished, cd_solvedAnswerId = Some aid,
                                          cd_solverUserId = Some (qa_userId a)\<rparr>"]) auto
  qed
qed

lemma quests_close_unchanged:
  assumes e: "ensured c0" and d0: "c_db c0 = Some db0"
    and r: "quests_close c0 caller input now = (c1, res)"
    and n: "res \<noteq> Inr \<lparr>alreadyClosed = False\<rparr>"
  shows "c1 = c0"
proof -
  have g0: "getDb c0 = (c0, Some db0)"
    by (rule getDb_ensured [OF e d0])
  from r n show ?thesis
    unfolding quests_close_ensured [OF e d0] closeAsFinished_ensured [OF g0]
    by (auto split: option.splits if_splits)
qed


lemma statusText_not_open: "statusText st \<noteq> ''open''"
  by (cases st) simp_all

lemma statusText_finished: "statusText st = ''finished'' \<longleftrightarrow> st = Finished"
  by (cases st) simp_all

lemma finish_needs_answer:
  assumes db: "c_db c = Some db"
    and r: "quests_close c caller input now = (c', res)"
    and f: "find (\<lambda>q. q_id q = cr_questId input) (quests db) = Some q"
    and op: "q_status q = ''open''"
    and db': "c_db c' = Some db'"
    and f': "find (\<lambda>q. q_id q = cr_questId input) (quests db') = Some q'"
    and fin: "q_status q' = ''finished''"
  shows "cr_outcome input = Finished \<and> q_userId q = caller
       \<and> (\<exists>a \<in> set (questAnswers db). qa_questId a = cr_questId input
              \<and> cr_solvedAnswerId input = Some (qa_id a))"
proof -
  from op have nc: "q_status q \<noteq> ''closed''" by simp
  from db f nc obtain c0 db0 where g: "getDb c = (c0, Some db0)" and e: "ensured c0"
    and d0: "c_db c0 = Some db0" and f0: "find (\<lambda>q. q_id q = cr_questId input) (quests db0) = Some q"
    and qa: "questAnswers db0 = questAnswers db"
    by (rule getDb_quest)
  from r have r0: "quests_close c0 caller input now = (c', res)"
    by (simp add: quests_close_getDb [OF g e d0])
  show ?thesis
  proof (cases "res = Inr \<lparr>alreadyClosed = False\<rparr>")
    case False
    with quests_close_unchanged [OF e d0 r0] have "c' = c0" by simp
    with d0 db' f0 f' have "q' = q" by simp
    with op fin show ?thesis by simp
  next
    case True
    with quests_close_success [OF e d0, of caller input now c'] r0
    obtain q0 d where q0: "find (\<lambda>q. q_id q = cr_questId input) (quests db0) = Some q0"
      and au: "q_userId q0 = caller" and st: "cd_status d = cr_outcome input"
      and c': "c' = c0\<lparr>c_db := Some (db0\<lparr>quests :=
                      map (\<lambda>q. if q_id q = cr_questId input then closeSet d now q else q)
                        (quests db0)\<rparr>)\<rparr>"
      and a: "cr_outcome input = Finished \<longrightarrow>
                 (\<exists>a \<in> set (questAnswers db0). qa_questId a = cr_questId input
                    \<and> cr_solvedAnswerId input = Some (qa_id a)
                    \<and> cd_solvedAnswerId d = Some (qa_id a)
                    \<and> cd_solverUserId d = Some (qa_userId a))"
      by blast
    from q0 f0 have qq: "q0 = q" by simp
    from c' db' have "quests db' = map (\<lambda>q. if q_id q = cr_questId input then closeSet d now q else q)
                        (quests db0)"
      by auto
    with find_closeSet [OF f0, of d now] f' have q': "q' = closeSet d now q"
      by simp
    with fin st have o: "cr_outcome input = Finished"
      by (simp add: closeSet_def statusText_finished)
    from a o q' au qq qa show ?thesis
      by (auto simp add: closeSet_def)
  qed
qed

lemma finish_without_answers:
  assumes db: "c_db c = Some db"
    and f: "find (\<lambda>q. q_id q = cr_questId input) (quests db) = Some q"
    and op: "q_status q = ''open''"
    and o: "cr_outcome input = Finished"
    and none: "\<forall>a \<in> set (questAnswers db). qa_questId a \<noteq> cr_questId input"
  shows "\<exists>c' db' rej. quests_close c caller input now = (c', Inl (Rejected rej))
           \<and> c_db c' = Some db'
           \<and> find (\<lambda>q. q_id q = cr_questId input) (quests db') = Some q
           \<and> (q_userId q = caller \<longrightarrow> rej = ValidationFailure)"
proof -
  from op have nc: "q_status q \<noteq> ''closed''" by simp
  from db f nc obtain c0 db0 where g: "getDb c = (c0, Some db0)" and e: "ensured c0"
    and d0: "c_db c0 = Some db0" and f0: "find (\<lambda>q. q_id q = cr_questId input) (quests db0) = Some q"
    and qa: "questAnswers db0 = questAnswers db"
    by (rule getDb_quest)
  have g0: "getDb c0 = (c0, Some db0)"
    by (rule getDb_ensured [OF e d0])
  have "quests_close c caller input now =
          (c0, Inl (Rejected (if q_userId q \<noteq> caller then AuthorizationDenied
                              else ValidationFailure)))"
    using f0 op o none
    by (simp add: quests_close_getDb [OF g e d0] quests_close_ensured [OF e d0]
        closeAsFinished_ensured [OF g0] qa)
  with d0 f0 show ?thesis
    by auto
qed

lemma handleConfirmCloseQuest_no_answers:
  "handleConfirmCloseQuest mutateAsync toNumber s selectedQuestId isSelectedQuestOwner Finished 0
       selectedSolvedAnswerId =
     (s, if selectedQuestId = None \<or> selectedQuestId = Some 0 \<or> \<not> isSelectedQuestOwner
         then Nothing
         else ToastError ''Cannot mark as finished without any answers.'')"
  by (auto simp add: handleConfirmCloseQuest_def split: option.splits)

lemma handleConfirmCloseQuest_already:
  assumes "selectedQuestId = Some questId" and "questId \<noteq> 0" and "isSelectedQuestOwner"
    and "closeOutcome \<noteq> Finished"
    and "mutateAsync s \<lparr>cr_questId = questId, cr_outcome = closeOutcome,
                         cr_solvedAnswerId = None\<rparr> = (s', Inr \<lparr>alreadyClosed = True\<rparr>)"
  shows "handleConfirmCloseQuest mutateAsync toNumber s selectedQuestId isSelectedQuestOwner
             closeOutcome answersLength selectedSolvedAnswerId
           = (s', ToastMessage ''Quest was already closed.'')"
  using assms by (simp add: handleConfirmCloseQuest_def)

lemma reclose_terminal:
  assumes db: "c_db c = Some db"
    and f: "find (\<lambda>q. q_id q = cr_questId input) (quests db) = Some q"
    and t: "q_status q = ''finished'' \<or> q_status q = ''suspended'' \<or> q_status q = ''unsolved''"
    and au: "q_userId q = caller"
  shows "\<exists>c' db'. quests_close c caller input now
                     = (c', Inr \<lparr>alreadyClosed = True\<rparr>)
           \<and> c_db c' = Some db'
           \<and> find (\<lambda>q. q_id q = cr_questId input) (quests db') = Some q
           \<and> questAnswers db' = questAnswers db"
proof -
  from t have nc: "q_status q \<noteq> ''closed''" and no: "q_status q \<noteq> ''open''" by auto
  from db f nc obtain c0 db0 where g: "getDb c = (c0, Some db0)" and e: "ensured c0"
    and d0: "c_db c0 = Some db0" and f0: "find (\<lambda>q. q_id q = cr_questId input) (quests db0) = Some q"
    and qa: "questAnswers db0 = questAnswers db"
    by (rule getDb_quest)
  have "quests_close c caller input now = (c0, Inr \<lparr>alreadyClosed = True\<rparr>)"
    using f0 no au
    by (simp add: quests_close_getDb [OF g e d0] quests_close_ensured [OF e d0])
  with d0 f0 qa show ?thesis
    by auto
qed

lemma close_then_reclose:
  assumes db: "c_db c = Some db"
    and r: "quests_close c caller input now = (c1, Inr \<lparr>alreadyClosed = False\<rparr>)"
    and same: "cr_questId input2 = cr_questId input"
  shows "\<exists>db1 q1. c_db c1 = Some db1
           \<and> find (\<lambda>q. q_id q = cr_questId input) (quests db1) = Some q1
           \<and> q_status q1 = statusText (cr_outcome input)
           \<and> quests_close c1 caller input2 now2
                = (c1, Inr \<lparr>alreadyClosed = True\<rparr>)"
proof -
  from db obtain c0 db0 where g: "getDb c = (c0, Some db0)" and e: "ensured c0"
    and d0: "c_db c0 = Some db0"
    by (rule getDb_Some)
  from r have r0: "quests_close c0 caller input now
      = (c1, Inr \<lparr>alreadyClosed = False\<rparr>)"
    by (simp add: quests_close_getDb [OF g e d0])
  from quests_close_success [OF e d0 r0]
  obtain q d where f0: "find (\<lambda>q. q_id q = cr_questId input) (quests db0) = Some q"
    and au: "q_userId q = caller" and st: "cd_status d = cr_outcome input"
    and c1: "c1 = c0\<lparr>c_db := Some (db0\<lparr>quests :=
                      map (\<lambda>q. if q_id q = cr_questId input then closeSet d now q else q)
                        (quests db0)\<rparr>)\<rparr>"
    by blast
  let ?db1 = "db0\<lparr>quests := map (\<lambda>q. if q_id q = cr_questId input then closeSet d now q else q)
                        (quests db0)\<rparr>"
  have e1: "ensured c1" and d1: "c_db c1 = Some ?db1"
    using e by (simp_all add: c1 ensured_c_db_update)
  have f1: "find (\<lambda>q. q_id q = cr_questId input) (quests ?db1) = Some (closeSet d now q)"
    using find_closeSet [OF f0, of d now] by simp
  have s1: "q_status (closeSet d now q) = statusText (cr_outcome input)"
    and u1: "q_userId (closeSet d now q) = caller"
    using st au by (simp_all add: closeSet_def)
  have "quests_close c1 caller input2 now2 = (c1, Inr \<lparr>alreadyClosed = True\<rparr>)"
    using f1 s1 u1 statusText_not_open [of "cr_outcome input"]
    by (simp add: quests_close_ensured [OF e1 d1] same)
  with d1 f1 s1 show ?thesis
    by blast
qed

lemma close_example:
  "\<exists>c' db'. quests_close exampleConn 1
                \<lparr>cr_questId = 1, cr_outcome = Finished, cr_solvedAnswerId = Some 1\<rparr> 9999
              = (c', Inr \<lparr>alreadyClosed = False\<rparr>)
     \<and> c_db c' = Some db'
     \<and> find (\<lambda>q. q_id q = 1) (quests db')
          = Some (quest1\<lparr>q_status := ''finished'', q_closedAt := Some 9999,
                          q_updatedAt := 9999\<rparr>)"
proof -
  let ?db0 = "exampleStore\<lparr>quests := [quest1, quest2\<lparr>q_status := ''unsolved''\<rparr>]\<rparr>"
  let ?c0 = "exampleConn\<lparr>avatarColumnEnsured := True, reportsTableEnsured := True,
                  questTablesEnsured := True, c_db := Some ?db0\<rparr>"
  have g: "getDb exampleConn = (?c0, Some ?db0)"
    by (rule getDb_exampleConn)
  have e: "ensured ?c0" and d0: "c_db ?c0 = Some ?db0"
    by (simp_all add: ensured_def)
  have g0: "getDb ?c0 = (?c0, Some ?db0)"
    by (rule getDb_ensured [OF e d0])
  have q: "q_id quest1 = 1" "q_userId quest1 = 1" "q_status quest1 = ''open''" "q_id quest2 = 2"
    by (simp_all add: quest1_def quest2_def newQuestRow_def questData_def)
  have a: "qa_id answer1 = 1" "qa_questId answer1 = 1" "qa_userId answer1 = 2"
    by (simp_all add: answer1_def)
  show ?thesis
    unfolding quests_close_getDb [OF g e d0] quests_close_ensured [OF e d0]
      closeAsFinished_ensured [OF g0]
    by (simp add: exampleStore_def q a closeSet_def)
qed

text \<open>
  C1. In the close procedure of the RPC layer, a quest that was open and is finished after the
  call was closed by its author with the outcome finished and with a solved-answer id that is
  the id of an existing answer of that very quest (so the quest has an answer). A request to
  close an open quest as finished while the quest has no answer is rejected (as a validation
  failure when it comes from the author) and leaves the quest row as it was. On the client,
  \<open>handleConfirmCloseQuest\<close> does not send such a request at all: with no answers it shows
  the error and leaves the server state untouched, whatever the mutation is.
\<close>

theorem finish_requires_answer_of_quest:
  "(c_db c = Some db
      \<and> quests_close c caller input now = (c', res)
      \<and> find (\<lambda>q. q_id q = cr_questId input) (quests db) = Some q
      \<and> q_status q = ''open''
      \<and> c_db c' = Some db'
      \<and> find (\<lambda>q. q_id q = cr_questId input) (quests db') = Some q'
      \<and> q_status q' = ''finished''
    \<longrightarrow> cr_outcome input = Finished \<and> q_userId q = caller
       \<and> (\<exists>a \<in> set (questAnswers db). qa_questId a = cr_questId input
              \<and> cr_solvedAnswerId input = Some (qa_id a)))
   \<and> (c_db c = Some db
        \<and> find (\<lambda>q. q_id q = cr_questId input) (quests db) = Some q
        \<and> q_status q = ''open''
        \<and> cr_outcome input = Finished
        \<and> (\<forall>a \<in> set (questAnswers db). qa_questId a \<noteq> cr_questId input)
      \<longrightarrow> (\<exists>c'' db'' rej. quests_close c caller input now = (c'', Inl (Rejected rej))
             \<and> c_db c'' = Some db''
             \<and> find (\<lambda>q. q_id q = cr_questId input) (quests db'') = Some q
             \<and> (q_userId q = caller \<longrightarrow> rej = ValidationFailure)))
   \<and> handleConfirmCloseQuest mutateAsync toNumber s selectedQuestId isSelectedQuestOwner Finished 0
         selectedSolvedAnswerId =
       (s, if selectedQuestId = None \<or> selectedQuestId = Some 0 \<or> \<not> isSelectedQuestOwner
           then Nothing
           else ToastError ''Cannot mark as finished without any answers.'')"
  using finish_needs_answer [of c db caller input now c' res q db' q']
    finish_without_answers [of c db input q caller now]
    handleConfirmCloseQuest_no_answers [of mutateAsync toNumber s selectedQuestId
      isSelectedQuestOwner selectedSolvedAnswerId]
  by blast

theorem finish_requires_answer_of_quest_witness:
  "c_db exampleConn = Some exampleStore
   \<and> find (\<lambda>q. q_id q = 1) (quests exampleStore) = Some quest1
   \<and> q_status quest1 = ''open''
   \<and> q_userId quest1 = 1
   \<and> (\<exists>c' db' q'. quests_close exampleConn 1
                      \<lparr>cr_questId = 1, cr_outcome = Finished, cr_solvedAnswerId = Some 1\<rparr> 9999
                    = (c', Inr \<lparr>alreadyClosed = False\<rparr>)
         \<and> c_db c' = Some db'
         \<and> find (\<lambda>q. q_id q = 1) (quests db') = Some q'
         \<and> q_status q' = ''finished''
         \<and> (\<exists>a \<in> set (questAnswers exampleStore). qa_questId a = 1 \<and> qa_id a = 1))
   \<and> questAnswers (exampleStore\<lparr>questAnswers := []\<rparr>) = []
   \<and> (\<exists>c'' db''. quests_close (exampleConn\<lparr>c_db := Some (exampleStore\<lparr>questAnswers := []\<rparr>)\<rparr>) 1
                      \<lparr>cr_questId = 1, cr_outcome = Finished, cr_solvedAnswerId = Some 1\<rparr> 9999
                    = (c'', Inl (Rejected ValidationFailure))
         \<and> c_db c'' = Some db''
         \<and> find (\<lambda>q. q_id q = 1) (quests db'') = Some quest1)
   \<and> handleConfirmCloseQuest (\<lambda>c input. quests_close c 1 input 9999) (\<lambda>selected. 1) exampleConn
         (Some 1) True Finished 0 ''1''
       = (exampleConn, ToastError ''Cannot mark as finished without any answers.'')"
proof -
  let ?input = "\<lparr>cr_questId = 1, cr_outcome = Finished, cr_solvedAnswerId = Some 1\<rparr>"
  let ?q' = "quest1\<lparr>q_status := ''finished'', q_closedAt := Some 9999, q_updatedAt := 9999\<rparr>"
  let ?db2 = "exampleStore\<lparr>questAnswers := []\<rparr>"
  let ?c2 = "exampleConn\<lparr>c_db := Some ?db2\<rparr>"
  have h: "c_db exampleConn = Some exampleStore"
    by (simp add: exampleConn_def)
  have q: "find (\<lambda>q. q_id q = cr_questId ?input) (quests exampleStore) = Some quest1"
    "q_status quest1 = ''open''" "q_status ?q' = ''finished''" "q_userId quest1 = 1"
    by (simp_all add: exampleStore_def quest1_def newQuestRow_def questData_def)
  from close_example obtain c' db' where
    r: "quests_close exampleConn 1 ?input 9999 = (c', Inr \<lparr>alreadyClosed = False\<rparr>)"
    and d: "c_db c' = Some db'"
    and f: "find (\<lambda>q. q_id q = cr_questId ?input) (quests db') = Some ?q'"
    by auto
  from finish_requires_answer_of_quest [of exampleConn exampleStore 1 ?input 9999 c'
      "Inr \<lparr>alreadyClosed = False\<rparr>" quest1 db' ?q', THEN conjunct1]
    h r q d f
  have "\<exists>a \<in> set (questAnswers exampleStore). qa_questId a = cr_questId ?input
          \<and> cr_solvedAnswerId ?input = Some (qa_id a)"
    by blast
  then have answered: "\<exists>a \<in> set (questAnswers exampleStore). qa_questId a = 1 \<and> qa_id a = 1"
    by auto
  from h q r d f answered
  have first: "\<exists>c' db' q'. quests_close exampleConn 1 ?input 9999
                    = (c', Inr \<lparr>alreadyClosed = False\<rparr>)
         \<and> c_db c' = Some db'
         \<and> find (\<lambda>q. q_id q = 1) (quests db') = Some q'
         \<and> q_status q' = ''finished''
         \<and> (\<exists>a \<in> set (questAnswers exampleStore). qa_questId a = 1 \<and> qa_id a = 1)"
    by (intro exI [of _ c'] exI [of _ db'] exI [of _ ?q']) simp
  have h2: "c_db ?c2 = Some ?db2"
    by simp
  have q2: "find (\<lambda>q. q_id q = cr_questId ?input) (quests ?db2) = Some quest1"
    using q(1) by simp
  have none: "\<forall>a \<in> set (questAnswers ?db2). qa_questId a \<noteq> cr_questId ?input"
    by simp
  have o: "cr_outcome ?input = Finished"
    by simp
  from finish_requires_answer_of_quest [of ?c2 ?db2 1 ?input 9999 exampleConn
      "Inr \<lparr>alreadyClosed = False\<rparr>" quest1 exampleStore quest1,
      THEN conjunct2, THEN conjunct1]
    h2 q2 q(2) o none
  have "\<exists>c'' db'' rej. quests_close ?c2 1 ?input 9999 = (c'', Inl (Rejected rej))
             \<and> c_db c'' = Some db''
             \<and> find (\<lambda>q. q_id q = cr_questId ?input) (quests db'') = Some quest1
             \<and> (q_userId quest1 = 1 \<longrightarrow> rej = ValidationFailure)"
    by blast
  with q(4) have second: "\<exists>c'' db''. quests_close ?c2 1 ?input 9999
                    = (c'', Inl (Rejected ValidationFailure))
         \<and> c_db c'' = Some db''
         \<and> find (\<lambda>q. q_id q = 1) (quests db'') = Some quest1"
    by auto
  from finish_requires_answer_of_quest [of ?c2 ?db2 1 ?input 9999 exampleConn
      "Inr \<lparr>alreadyClosed = False\<rparr>" quest1 exampleStore quest1
      "\<lambda>c input. quests_close c 1 input 9999" "\<lambda>selected. 1" exampleConn "Some 1" True "''1''",
      THEN conjunct2, THEN conjunct2]
  have page: "handleConfirmCloseQuest (\<lambda>c input. quests_close c 1 input 9999) (\<lambda>selected. 1)
         exampleConn (Some 1) True Finished 0 ''1''
       = (exampleConn, ToastError ''Cannot mark as finished without any answers.'')"
    by simp
  have e: "questAnswers ?db2 = []"
    by simp
  from h q(1,2,4) first e second page show ?thesis
    by simp
qed

text \<open>
  C2. In the close procedure of the RPC layer, a close by the author on a quest whose status
  is finished, suspended or unsolved answers "already closed" and leaves the quest row, hence
  its status, solved-answer id and solver-user id, exactly as it was. In particular, after a
  close that did transition the quest, a second close of the same quest by the same caller,
  with whatever outcome, answers "already closed" and changes nothing at all. On the page, a
  close request answered with \<^verbatim>\<open>alreadyClosed\<close> ends in the message that the quest was
  already closed.
\<close>

theorem reclose_is_noop:
  "(c_db c = Some db
      \<and> find (\<lambda>q. q_id q = cr_questId input) (quests db) = Some q
      \<and> (q_status q = ''finished'' \<or> q_status q = ''suspended'' \<or> q_status q = ''unsolved'')
      \<and> q_userId q = caller
    \<longrightarrow> (\<exists>c' db'. quests_close c caller input now
                      = (c', Inr \<lparr>alreadyClosed = True\<rparr>)
           \<and> c_db c' = Some db'
           \<and> find (\<lambda>q. q_id q = cr_questId input) (quests db') = Some q
           \<and> questAnswers db' = questAnswers db))
   \<and> (c_db c = Some db
        \<and> quests_close c caller input now
             = (c1, Inr \<lparr>alreadyClosed = False\<rparr>)
        \<and> cr_questId input2 = cr_questId input
      \<longrightarrow> (\<exists>db1 q1. c_db c1 = Some db1
             \<and> find (\<lambda>q. q_id q = cr_questId input) (quests db1) = Some q1
             \<and> q_status q1 = statusText (cr_outcome input)
             \<and> quests_close c1 caller input2 now2
                  = (c1, Inr \<lparr>alreadyClosed = True\<rparr>)))
   \<and> (selectedQuestId = Some questId \<and> questId \<noteq> 0 \<and> isSelectedQuestOwner
        \<and> closeOutcome \<noteq> Finished
        \<and> mutateAsync s \<lparr>cr_questId = questId, cr_outcome = closeOutcome,
                          cr_solvedAnswerId = None\<rparr> = (s', Inr \<lparr>alreadyClosed = True\<rparr>)
      \<longrightarrow> handleConfirmCloseQuest mutateAsync toNumber s selectedQuestId isSelectedQuestOwner
             closeOutcome answersLength selectedSolvedAnswerId
           = (s', ToastMessage ''Quest was already closed.''))"
  using reclose_terminal [of c db input q caller now]
    close_then_reclose [of c db caller input now c1 input2 now2]
    handleConfirmCloseQuest_already [of selectedQuestId questId isSelectedQuestOwner closeOutcome
      mutateAsync s s' toNumber answersLength selectedSolvedAnswerId]
  by blast

theorem reclose_is_noop_witness:
  "c_db exampleConn = Some exampleStore
   \<and> (\<exists>c1 db1 q1.
         quests_close exampleConn 1
             \<lparr>cr_questId = 1, cr_outcome = Finished, cr_solvedAnswerId = Some 1\<rparr> 9999
           = (c1, Inr \<lparr>alreadyClosed = False\<rparr>)
         \<and> c_db c1 = Some db1
         \<and> find (\<lambda>q. q_id q = 1) (quests db1) = Some q1
         \<and> q_status q1 = ''finished''
         \<and> quests_close c1 1
               \<lparr>cr_questId = 1, cr_outcome = Unsolved, cr_solvedAnswerId = None\<rparr> 10000
             = (c1, Inr \<lparr>alreadyClosed = True\<rparr>)
         \<and> handleConfirmCloseQuest (\<lambda>c input. quests_close c 1 input 10000) (\<lambda>selected. 1) c1
               (Some 1) True Unsolved 2 []
             = (c1, ToastMessage ''Quest was already closed.''))
   \<and> find (\<lambda>q. q_id q = 2) [quest1, quest2\<lparr>q_status := ''unsolved''\<rparr>]
        = Some (quest2\<lparr>q_status := ''unsolved''\<rparr>)
   \<and> q_userId quest2 = 1
   \<and> (\<exists>c' db'.
         quests_close
             (exampleConn\<lparr>c_db := Some (exampleStore\<lparr>quests :=
                 [quest1, quest2\<lparr>q_status := ''unsolved''\<rparr>]\<rparr>)\<rparr>) 1
             \<lparr>cr_questId = 2, cr_outcome = Finished, cr_solvedAnswerId = Some 1\<rparr> 10000
           = (c', Inr \<lparr>alreadyClosed = True\<rparr>)
         \<and> c_db c' = Some db'
         \<and> find (\<lambda>q. q_id q = 2) (quests db') = Some (quest2\<lparr>q_status := ''unsolved''\<rparr>)
         \<and> questAnswers db' = questAnswers exampleStore)"
proof -
  let ?input = "\<lparr>cr_questId = 1, cr_outcome = Finished, cr_solvedAnswerId = Some 1\<rparr>"
  let ?input2 = "\<lparr>cr_questId = 1, cr_outcome = Unsolved, cr_solvedAnswerId = None\<rparr>"
  let ?input3 = "\<lparr>cr_questId = 2, cr_outcome = Finished, cr_solvedAnswerId = Some 1\<rparr>"
  let ?q2 = "quest2\<lparr>q_status := ''unsolved''\<rparr>"
  let ?db3 = "exampleStore\<lparr>quests := [quest1, ?q2]\<rparr>"
  let ?c3 = "exampleConn\<lparr>c_db := Some ?db3\<rparr>"
  let ?mutate = "\<lambda>c input. quests_close c 1 input 10000"
  have h: "c_db exampleConn = Some exampleStore"
    by (simp add: exampleConn_def)
  from close_example obtain c1 where
    r: "quests_close exampleConn 1 ?input 9999 = (c1, Inr \<lparr>alreadyClosed = False\<rparr>)"
    by auto
  have s: "cr_questId ?input2 = cr_questId ?input"
    by simp
  from reclose_is_noop [of exampleConn exampleStore ?input _ 1 9999 c1 ?input2 10000,
      THEN conjunct2, THEN conjunct1] h r s
  obtain db1 q1 where again: "c_db c1 = Some db1"
    "find (\<lambda>q. q_id q = cr_questId ?input) (quests db1) = Some q1"
    "q_status q1 = statusText (cr_outcome ?input)"
    "quests_close c1 1 ?input2 10000 = (c1, Inr \<lparr>alreadyClosed = True\<rparr>)"
    by blast
  have m: "?mutate c1 ?input2 = (c1, Inr \<lparr>alreadyClosed = True\<rparr>)"
    by (simp add: again(4))
  have page: "handleConfirmCloseQuest ?mutate (\<lambda>selected. 1) c1 (Some 1) True Unsolved 2 []
                = (c1, ToastMessage ''Quest was already closed.'')"
    by (rule reclose_is_noop [of exampleConn exampleStore ?input quest1 1 9999 c1 ?input2 10000
          "Some 1" 1 True Unsolved ?mutate c1 c1 "\<lambda>selected. 1" 2 "[]",
          THEN conjunct2, THEN conjunct2, THEN mp]) (simp add: m)
  from h r again page
  have second: "\<exists>c1 db1 q1.
         quests_close exampleConn 1 ?input 9999 = (c1, Inr \<lparr>alreadyClosed = False\<rparr>)
         \<and> c_db c1 = Some db1
         \<and> find (\<lambda>q. q_id q = 1) (quests db1) = Some q1
         \<and> q_status q1 = ''finished''
         \<and> quests_close c1 1 ?input2 10000 = (c1, Inr \<lparr>alreadyClosed = True\<rparr>)
         \<and> handleConfirmCloseQuest ?mutate (\<lambda>selected. 1) c1 (Some 1) True Unsolved 2 []
             = (c1, ToastMessage ''Quest was already closed.'')"
    by (intro exI [of _ c1] exI [of _ db1] exI [of _ q1]) simp
  have k: "q_id quest1 = 1" "q_id quest2 = 2" "q_userId quest2 = 1"
    by (simp_all add: quest1_def quest2_def newQuestRow_def questData_def)
  have f3: "find (\<lambda>q. q_id q = 2) [quest1, ?q2] = Some ?q2"
    by (simp add: k)
  have h3: "c_db ?c3 = Some ?db3"
    by simp
  have q3: "find (\<lambda>q. q_id q = cr_questId ?input3) (quests ?db3) = Some ?q2"
    by (simp add: k)
  have t3: "q_status ?q2 = ''finished'' \<or> q_status ?q2 = ''suspended''
              \<or> q_status ?q2 = ''unsolved''"
    by simp
  have u3: "q_userId ?q2 = 1"
    by (simp add: k)
  from reclose_is_noop [of ?c3 ?db3 ?input3 ?q2 1 10000 c1 ?input2 10000, THEN conjunct1]
    h3 q3 t3 u3
  have "\<exists>c' db'. quests_close ?c3 1 ?input3 10000 = (c', Inr \<lparr>alreadyClosed = True\<rparr>)
           \<and> c_db c' = Some db'
           \<and> find (\<lambda>q. q_id q = cr_questId ?input3) (quests db') = Some ?q2
           \<and> questAnswers db' = questAnswers ?db3"
    by blast
  then have first: "\<exists>c' db'. quests_close ?c3 1 ?input3 10000
             = (c', Inr \<lparr>alreadyClosed = True\<rparr>)
           \<and> c_db c' = Some db'
           \<and> find (\<lambda>q. q_id q = 2) (quests db') = Some ?q2
           \<and> questAnswers db' = questAnswers exampleStore"
    by simp
  from h second f3 k(3) first show ?thesis
    by simp
qed

end
